theory Spec2Isabelle
  imports Main "HOL-Library.Sublist"
begin

section \<open>Go strings\<close>

text \<open>
  A Go string is a sequence of bytes, here a \<^typ>\<open>string\<close>. \<open>strings.Index\<close>,
  \<open>bytes.Contains\<close> and slicing work on bytes and are written out below; so is
  \<open>strings.IndexAny\<close>, which the program calls with the ASCII characters \<open>>;\<close> only, where
  looking for bytes and looking for code points are the same.

  \<open>strings.TrimSpace\<close>, \<open>strings.ToLower\<close> and \<open>strings.ToUpper\<close> follow the Unicode
  tables; they are not written out but taken as parameters, like every other library call.
  What they do on a string of ASCII bytes is fixed by their documentation and is defined
  here: \<open>TrimSpace\<close> removes leading and trailing tab, line feed, vertical tab, form feed,
  carriage return and space; \<open>ToLower\<close> and \<open>ToUpper\<close> map the letters \<open>A\<close> to \<open>Z\<close>
  and \<open>a\<close> to \<open>z\<close> and keep every other ASCII byte.
\<close>

definition isASCII :: "string \<Rightarrow> bool" where
  "isASCII s = list_all (\<lambda>c. (of_char c :: nat) < 128) s"

definition asciiSpace :: "char \<Rightarrow> bool" where
  "asciiSpace c = (c = CHR 0x09 \<or> c = CHR 0x0A \<or> c = CHR 0x0B \<or> c = CHR 0x0C
                   \<or> c = CHR 0x0D \<or> c = CHR 0x20)"

definition asciiTrimSpace :: "string \<Rightarrow> string" where
  "asciiTrimSpace s = rev (dropWhile asciiSpace (rev (dropWhile asciiSpace s)))"

definition asciiLower :: "char \<Rightarrow> char" where
  "asciiLower c = (if 65 \<le> (of_char c :: nat) \<and> (of_char c :: nat) \<le> 90
                   then char_of ((of_char c :: nat) + 32) else c)"

definition asciiUpper :: "char \<Rightarrow> char" where
  "asciiUpper c = (if 97 \<le> (of_char c :: nat) \<and> (of_char c :: nat) \<le> 122
                   then char_of ((of_char c :: nat) - 32) else c)"

definition asciiToLower :: "string \<Rightarrow> string" where
  "asciiToLower s = map asciiLower s"

definition asciiToUpper :: "string \<Rightarrow> string" where
  "asciiToUpper s = map asciiUpper s"

text \<open>\<open>strings.Index(s, sep)\<close>: the index of the first occurrence of \<open>sep\<close>, or \<open>-1\<close>.\<close>

fun Index :: "string \<Rightarrow> string \<Rightarrow> int" where
  "Index [] sep = (if sep = [] then 0 else - 1)"
| "Index (c # t) sep =
     (if prefix sep (c # t) then 0
      else (let i = Index t sep in if i < 0 then - 1 else i + 1))"

text \<open>
  \<open>strings.IndexAny(s, chars)\<close> for ASCII \<open>chars\<close>: the index of the first byte of \<open>s\<close>
  that is in \<open>chars\<close>, or \<open>-1\<close>.
\<close>

fun IndexAny :: "string \<Rightarrow> string \<Rightarrow> int" where
  "IndexAny [] chars = - 1"
| "IndexAny (c # t) chars =
     (if c \<in> set chars then 0
      else (let i = IndexAny t chars in if i < 0 then - 1 else i + 1))"

definition Contains :: "string \<Rightarrow> string \<Rightarrow> bool" where
  "Contains s sub = (Index s sub \<ge> 0)"

text \<open>The slices \<open>s[i:]\<close> and \<open>s[:i]\<close>, used by the program only with \<open>0 \<le> i \<le> len(s)\<close>.\<close>

definition sliceFrom :: "string \<Rightarrow> int \<Rightarrow> string" where
  "sliceFrom s i = drop (nat i) s"

definition sliceTo :: "string \<Rightarrow> int \<Rightarrow> string" where
  "sliceTo s i = take (nat i) s"

section \<open>Package blf: the dialog-info parser\<close>

text \<open>\<open>type State string\<close> with its four constants.\<close>

type_synonym State = string

definition StateIdle :: State where "StateIdle = ''idle''"
definition StateRinging :: State where "StateRinging = ''ringing''"
definition StateBusy :: State where "StateBusy = ''busy''"
definition StateUnknown :: State where "StateUnknown = ''unknown''"

text \<open>
  The structs the XML decoder fills. \<open>Party\<close> is the anonymous struct of the fields
  \<open>Local\<close> and \<open>Remote\<close>. The fields of the namespace-free structs carry the suffix
  \<open>_NoNS\<close>, since record fields share one name space.
\<close>

record Party =
  Identity :: string
  Target :: string

record Dialog =
  ID :: string
  State :: string
  StateAttr :: string
  Direction :: string
  Local :: Party
  Remote :: Party

record DialogInfo =
  Entity :: string
  Dialogs :: "Dialog list"

record dialogNoNS =
  ID_NoNS :: string
  State_NoNS :: string
  StateAttr_NoNS :: string

record dialogInfoNoNS =
  Entity_NoNS :: string
  Dialogs_NoNS :: "dialogNoNS list"

text \<open>
  The calls package blf makes into Go's library. \<open>xml.Unmarshal\<close> is called at two
  struct types; each call is a field of the record below, \<open>None\<close> when the call returns
  an error. \<open>TrimSpace\<close> and \<open>ToLower\<close> are the two functions of package \<open>strings\<close>.
\<close>

record golib =
  Unmarshal_DialogInfo :: "string \<Rightarrow> DialogInfo option"
  Unmarshal_dialogInfoNoNS :: "string \<Rightarrow> dialogInfoNoNS option"
  TrimSpace :: "string \<Rightarrow> string"
  ToLower :: "string \<Rightarrow> string"

definition dialogState :: "golib \<Rightarrow> Dialog \<Rightarrow> string" where
  "dialogState X d =
     (let s = TrimSpace X (State d);
          s = (if s = '''' then TrimSpace X (StateAttr d) else s)
      in ToLower X s)"

text \<open>The \<open>for\<close> loop of \<open>dialogsToState\<close>; falling out of the loop returns idle.\<close>

fun dialogsToState_loop :: "golib \<Rightarrow> Dialog list \<Rightarrow> State" where
  "dialogsToState_loop X [] = StateIdle"
| "dialogsToState_loop X (d # ds) =
     (let s = dialogState X d in
      if s = ''terminated'' \<or> s = '''' then dialogsToState_loop X ds
      else if s = ''trying'' \<or> s = ''early'' \<or> s = ''proceeding'' then StateRinging
      else if s = ''confirmed'' then StateBusy
      else StateBusy)"

definition dialogsToState :: "golib \<Rightarrow> Dialog list \<Rightarrow> State" where
  "dialogsToState X dialogs =
     (if length dialogs = 0 then StateIdle else dialogsToState_loop X dialogs)"

definition dialogStateStr :: "golib \<Rightarrow> string \<Rightarrow> string \<Rightarrow> string" where
  "dialogStateStr X s sAttr =
     (let s = TrimSpace X (ToLower X s);
          s = (if s = '''' then TrimSpace X (ToLower X sAttr) else s)
      in s)"

fun dialogsNoNSToState_loop :: "golib \<Rightarrow> dialogNoNS list \<Rightarrow> State" where
  "dialogsNoNSToState_loop X [] = StateIdle"
| "dialogsNoNSToState_loop X (d # ds) =
     (let s = dialogStateStr X (State_NoNS d) (StateAttr_NoNS d) in
      if s = ''terminated'' \<or> s = '''' then dialogsNoNSToState_loop X ds
      else if s = ''trying'' \<or> s = ''early'' \<or> s = ''proceeding'' then StateRinging
      else if s = ''confirmed'' then StateBusy
      else StateBusy)"

definition dialogsNoNSToState :: "golib \<Rightarrow> dialogNoNS list \<Rightarrow> State" where
  "dialogsNoNSToState X dialogs =
     (if length dialogs = 0 then StateIdle else dialogsNoNSToState_loop X dialogs)"

definition ParseDialogInfo :: "golib \<Rightarrow> string \<Rightarrow> State" where
  "ParseDialogInfo X body =
     (case Unmarshal_DialogInfo X body of
        Some info \<Rightarrow> dialogsToState X (Dialogs info)
      | None \<Rightarrow>
          (case Unmarshal_dialogInfoNoNS X body of
             None \<Rightarrow> StateUnknown
           | Some infoNoNS \<Rightarrow> dialogsNoNSToState X (Dialogs_NoNS infoNoNS)))"

text \<open>
  The two identical blocks of \<open>ExtensionFromDialogInfo\<close> that cut \<open>scheme:identifier@host\<close>:
  \<open>None\<close> when the string has no colon and the function goes on.
\<close>

definition extractIdentifier :: "string \<Rightarrow> string option" where
  "extractIdentifier uri =
     (let idx = Index uri '':'' in
      if idx \<ge> 0 then
        (let rest = sliceFrom uri (idx + 1); at = Index rest ''@'' in
         if at \<ge> 0 then Some (sliceTo rest at) else Some rest)
      else None)"

definition ExtensionFromDialogInfo :: "golib \<Rightarrow> string \<Rightarrow> string" where
  "ExtensionFromDialogInfo X body =
     (case Unmarshal_DialogInfo X body of
        None \<Rightarrow> ''''
      | Some info \<Rightarrow>
          (case (if Entity info \<noteq> '''' then extractIdentifier (Entity info) else None) of
             Some r \<Rightarrow> r
           | None \<Rightarrow>
               (case Dialogs info of
                  [] \<Rightarrow> ''''
                | d0 # _ \<Rightarrow>
                    (if Identity (Local d0) \<noteq> '''' then
                       (case extractIdentifier (Identity (Local d0)) of
                          Some r \<Rightarrow> r
                        | None \<Rightarrow> '''')
                     else ''''))))"

definition ParsePresenceBody :: "golib \<Rightarrow> string \<Rightarrow> State" where
  "ParsePresenceBody X body =
     (if Contains body ''dialog-info'' then ParseDialogInfo X body
      else if Contains body ''closed'' \<and> \<not> Contains body ''open'' then StateIdle
      else if Contains body ''open'' then StateBusy
      else StateUnknown)"

text \<open>Package blf, the state mapper.\<close>

definition GraphAvailabilityAvailable :: string where "GraphAvailabilityAvailable = ''Available''"
definition GraphAvailabilityBusy :: string where "GraphAvailabilityBusy = ''Busy''"
definition GraphActivityAvailable :: string where "GraphActivityAvailable = ''Available''"
definition GraphActivityInACall :: string where "GraphActivityInACall = ''InACall''"

definition ToGraph :: "State \<Rightarrow> string \<times> string" where
  "ToGraph s =
     (if s = StateIdle then (GraphAvailabilityAvailable, GraphActivityAvailable)
      else if s = StateRinging \<or> s = StateBusy then (GraphAvailabilityBusy, GraphActivityInACall)
      else (GraphAvailabilityAvailable, GraphActivityAvailable))"

text \<open>
  The reading of section 4.4 of the specification, for comparison with the code. The
  effective state of a sub-dialog is the child element's text, or the attribute when that
  is empty, compared without regard to case: here in lower case, the tokens being ASCII.
  The scan skips terminated and empty states, and the first state it does not skip gives the
  verdict.
\<close>

definition spec_effective_state :: "string \<Rightarrow> string \<Rightarrow> string" where
  "spec_effective_state child attr = asciiToLower (if child = '''' then attr else child)"

definition spec_skipped :: "string \<Rightarrow> bool" where
  "spec_skipped s = (s = ''terminated'' \<or> s = '''')"

definition spec_verdict :: "string option \<Rightarrow> State" where
  "spec_verdict first =
     (case first of
        None \<Rightarrow> StateIdle
      | Some s \<Rightarrow>
          if s = ''trying'' \<or> s = ''early'' \<or> s = ''proceeding'' then StateRinging
          else if s = ''confirmed'' then StateBusy
          else StateBusy)"

definition spec_scan :: "string list \<Rightarrow> State" where
  "spec_scan tokens = spec_verdict (find (\<lambda>s. \<not> spec_skipped s) tokens)"

text \<open>
  What the code makes of the effective state on ASCII text: the text and the attribute are
  trimmed of surrounding white space before they are looked at.
\<close>

definition trimmed_effective_state :: "string \<Rightarrow> string \<Rightarrow> string" where
  "trimmed_effective_state child attr =
     asciiToLower (if asciiTrimSpace child = '''' then asciiTrimSpace attr
                   else asciiTrimSpace child)"

text \<open>
  A library whose \<open>TrimSpace\<close> and \<open>ToLower\<close> do on ASCII strings what Go's do. Go's
  library is one; nothing is assumed about other strings.
\<close>

definition go_strings_on_ascii :: "golib \<Rightarrow> bool" where
  "go_strings_on_ascii X =
     (\<forall>s. isASCII s \<longrightarrow> TrimSpace X s = asciiTrimSpace s \<and> ToLower X s = asciiToLower s)"

text \<open>A sub-dialog that carries nothing but the text of its state element.\<close>

definition dialogWithState :: "string \<Rightarrow> Dialog" where
  "dialogWithState s =
     \<lparr>ID = '''', State = s, StateAttr = '''', Direction = '''',
      Local = \<lparr>Identity = '''', Target = ''''\<rparr>,
      Remote = \<lparr>Identity = '''', Target = ''''\<rparr>\<rparr>"

text \<open>A sub-dialog that carries its state as the attribute only.\<close>

definition dialogWithStateAttr :: "string \<Rightarrow> Dialog" where
  "dialogWithStateAttr a =
     \<lparr>ID = '''', State = '''', StateAttr = a, Direction = '''',
      Local = \<lparr>Identity = '''', Target = ''''\<rparr>,
      Remote = \<lparr>Identity = '''', Target = ''''\<rparr>\<rparr>"

text \<open>
  Two documents of the repository's tests, and what the two decoding calls return for them.
  \<open>body_confirmed\<close> is the first document of \<open>TestParseDialogInfo_StateElement\<close>; it
  declares the RFC 4235 namespace and both structs are filled from it. \<open>body_NoNamespace\<close>
  is the document of \<open>TestParseDialogInfo_NoNamespace\<close>; it declares no namespace, so the
  namespaced struct is refused and the namespace-free struct is filled (the test expects
  busy, the state of its one dialog under that struct). Every other body is refused here.
  The two string functions of this sample library are the ASCII ones.
\<close>

definition quoted :: "string \<Rightarrow> string" where
  "quoted s = CHR 0x22 # s @ [CHR 0x22]"

definition body_confirmed :: string where
  "body_confirmed =
     ''<?xml version='' @ quoted ''1.0'' @ ''?>'' @ [CHR 0x0A]
     @ ''<dialog-info xmlns='' @ quoted ''urn:ietf:params:xml:ns:dialog-info''
     @ '' version='' @ quoted ''1'' @ '' state='' @ quoted ''full''
     @ '' entity='' @ quoted ''sip:6000@pbx.example.com'' @ ''>'' @ [CHR 0x0A]
     @ ''  <dialog id='' @ quoted ''abc123'' @ '' direction='' @ quoted ''recipient''
     @ ''>'' @ [CHR 0x0A]
     @ ''    <state>confirmed</state>'' @ [CHR 0x0A]
     @ ''  </dialog>'' @ [CHR 0x0A]
     @ ''</dialog-info>''"

definition body_NoNamespace :: string where
  "body_NoNamespace =
     ''<?xml version='' @ quoted ''1.0'' @ ''?>'' @ [CHR 0x0A]
     @ ''<dialog-info version='' @ quoted ''1'' @ '' state='' @ quoted ''full''
     @ '' entity='' @ quoted ''sip:6000@pbx'' @ ''>'' @ [CHR 0x0A]
     @ ''  <dialog id='' @ quoted ''x'' @ ''>'' @ [CHR 0x0A]
     @ ''    <state>confirmed</state>'' @ [CHR 0x0A]
     @ ''  </dialog>'' @ [CHR 0x0A]
     @ ''</dialog-info>''"

definition xml_of_tests :: golib where
  "xml_of_tests =
     \<lparr>Unmarshal_DialogInfo = (\<lambda>body.
        if body = body_confirmed
        then Some \<lparr>Entity = ''sip:6000@pbx.example.com'',
                   Dialogs = [\<lparr>ID = ''abc123'', State = ''confirmed'', StateAttr = '''',
                               Direction = ''recipient'',
                               Local = \<lparr>Identity = '''', Target = ''''\<rparr>,
                               Remote = \<lparr>Identity = '''', Target = ''''\<rparr>\<rparr>]\<rparr>
        else None),
      Unmarshal_dialogInfoNoNS = (\<lambda>body.
        if body = body_confirmed
        then Some \<lparr>Entity_NoNS = ''sip:6000@pbx.example.com'',
                   Dialogs_NoNS = [\<lparr>ID_NoNS = ''abc123'', State_NoNS = ''confirmed'',
                                    StateAttr_NoNS = ''''\<rparr>]\<rparr>
        else if body = body_NoNamespace
        then Some \<lparr>Entity_NoNS = ''sip:6000@pbx'',
                   Dialogs_NoNS = [\<lparr>ID_NoNS = ''x'', State_NoNS = ''confirmed'',
                                    StateAttr_NoNS = ''''\<rparr>]\<rparr>
        else None),
      TrimSpace = asciiTrimSpace,
      ToLower = asciiToLower\<rparr>"

text \<open>
  The reading of section 4.4 for the resource identifier: of \<open>scheme:identifier@host\<close>, the
  part between the first colon and the next \<open>@\<close>.
\<close>

definition spec_identifier :: "string \<Rightarrow> string" where
  "spec_identifier uri =
     takeWhile (\<lambda>x. x \<noteq> CHR ''@'') (tl (dropWhile (\<lambda>x. x \<noteq> CHR '':'') uri))"

section \<open>Formatting and logging\<close>

text \<open>The verbs of \<open>fmt\<close> the program uses: \<open>%d\<close> of an int and \<open>%v\<close> of a string slice.\<close>

fun digitsOf :: "nat \<Rightarrow> string" where
  "digitsOf n =
     (if n < 10 then [char_of (48 + n)]
      else digitsOf (n div 10) @ [char_of (48 + n mod 10)])"

definition Itoa :: "int \<Rightarrow> string" where
  "Itoa i = (if i < 0 then CHR ''-'' # digitsOf (nat (- i)) else digitsOf (nat i))"

fun joinSpace :: "string list \<Rightarrow> string" where
  "joinSpace [] = ''''"
| "joinSpace [x] = x"
| "joinSpace (x # y # ys) = x @ '' '' @ joinSpace (y # ys)"

definition fmtStrings :: "string list \<Rightarrow> string" where
  "fmtStrings xs = ''['' @ joinSpace xs @ '']''"

text \<open>
  Package sip reads nothing of an error but its message, so there a Go \<open>error\<close> is its
  message. Package graph also unwraps errors, so there an error is a message together with
  the error it wraps, if any: \<open>errors.New\<close> makes an error that wraps nothing. \<open>nil\<close> is
  \<open>None\<close>.
\<close>

datatype goerror = errors_New string | Wrapping string goerror

fun Error :: "goerror \<Rightarrow> string" where
  "Error (errors_New m) = m"
| "Error (Wrapping m e) = m"

fun Unwrap :: "goerror \<Rightarrow> goerror option" where
  "Unwrap (errors_New m) = None"
| "Unwrap (Wrapping m e) = Some e"

text \<open>
  A call of the structured logger is a log entry: level, message and the attribute pairs,
  after the component attribute the logger was made with.
\<close>

datatype LogLevel = LevelDebug | LevelInfo | LevelWarn | LevelError

datatype LogValue = VString string | VInt int | VStrings "string list"

record LogEntry =
  level :: LogLevel
  msg :: string
  attrs :: "(string \<times> LogValue) list"

definition logEntry :: "string \<Rightarrow> LogLevel \<Rightarrow> string \<Rightarrow> (string \<times> LogValue) list \<Rightarrow> LogEntry" where
  "logEntry component l m as = \<lparr>level = l, msg = m, attrs = (''component'', VString component) # as\<rparr>"

section \<open>Package sip: the session manager\<close>

record Config =
  Server :: string
  Transport :: string
  Username :: string
  Password :: string
  ContactIP :: string
  ContactPort :: int
  STUNServers :: "string list"
  UserAgent :: string

text \<open>
  The types of the SIP library, as far as the program touches them. Of a parsed \<open>sip.Uri\<close> the
  user and the host are kept; the program reads the host. A request the program builds is its method, its recipient and the
  operations done on it in order (headers appended and removed, the transport set, the
  options the client applies when the request is handed over); \<open>Clone\<close> copies that value.
  A message the program receives is what it reads of it: \<open>GetHeader\<close>, the status code of a
  response, the body of a request.
\<close>

record Uri =
  User :: string
  Host :: string

datatype ClientRequestOption =
  ClientRequestBuild | ClientRequestRegisterBuild | ClientRequestIncreaseCSEQ | ClientRequestAddVia

datatype RequestOp =
  AppendHeader string string | RemoveHeader string | SetTransport string
  | Options "ClientRequestOption list"

record Request =
  Method :: string
  Recipient :: Uri
  Ops :: "RequestOp list"

record Incoming =
  GetHeader :: "string \<Rightarrow> string option"

record Response = Incoming +
  StatusCode :: int

record NotifyRequest = Incoming +
  Body :: string

text \<open>
  A client transaction, seen through \<open>getResponse\<close>: it is done, or it has a response
  (the first one on its channel). The deferred \<open>Terminate\<close> of a transaction has no
  part in what the functions return and is left out.
\<close>

datatype ClientTransaction = TxDone | TxResponse Response

record DigestOptions =
  dMethod :: string
  dURI :: string
  dUsername :: string
  dPassword :: string

text \<open>
  The library calls, \<open>Inl\<close> carrying the error. The peer answers a request as a function of
  all the requests handed to \<open>TransactionRequest\<close> so far, the last being the current one.
  \<open>'c\<close> is the type of a parsed challenge. \<open>ToUpper\<close> is \<open>strings.ToUpper\<close>.
\<close>

record 'c sipgo =
  ToUpper :: "string \<Rightarrow> string"
  ParseUri :: "string \<Rightarrow> string + Uri"
  Transaction :: "Request list \<Rightarrow> string + ClientTransaction"
  ParseChallenge :: "string \<Rightarrow> string + 'c"
  Digest :: "'c \<Rightarrow> DigestOptions \<Rightarrow> string + string"

text \<open>What the client has done: the requests handed over, oldest first, and the log.\<close>

record sip_state =
  sent :: "Request list"
  slog :: "LogEntry list"

definition sipLog :: "sip_state \<Rightarrow> LogLevel \<Rightarrow> string \<Rightarrow> (string \<times> LogValue) list \<Rightarrow> sip_state" where
  "sipLog st l m as = st\<lparr>slog := slog st @ [logEntry ''sip'' l m as]\<rparr>"

text \<open>
  The client: its configuration, its extensions and whether a handler \<open>onBLF\<close> is
  registered. The library handles, the logger and the mutex of the struct are left out.
\<close>

record sip_Client =
  cfg :: Config
  extensions :: "string list"
  onBLF :: bool

definition NewRequest :: "string \<Rightarrow> Uri \<Rightarrow> Request" where
  "NewRequest m recipient = \<lparr>Method = m, Recipient = recipient, Ops = []\<rparr>"

definition applyOp :: "Request \<Rightarrow> RequestOp \<Rightarrow> Request" where
  "applyOp req op = req\<lparr>Ops := Ops req @ [op]\<rparr>"

definition TransactionRequest ::
  "'c sipgo \<Rightarrow> Request \<Rightarrow> ClientRequestOption list \<Rightarrow> sip_state
   \<Rightarrow> (string + Request \<times> ClientTransaction) \<times> sip_state" where
  "TransactionRequest E req opts st =
     (let req' = applyOp req (Options opts);
          st' = st\<lparr>sent := sent st @ [req']\<rparr>
      in case Transaction E (sent st') of
           Inl err \<Rightarrow> (Inl err, st')
         | Inr tx \<Rightarrow> (Inr (req', tx), st'))"


definition getResponse :: "ClientTransaction \<Rightarrow> string + Response" where
  "getResponse tx =
     (case tx of TxDone \<Rightarrow> Inl ''transaction died'' | TxResponse res \<Rightarrow> Inr res)"


definition authRequest :: "Request \<Rightarrow> string \<Rightarrow> Request" where
  "authRequest req cred =
     applyOp (applyOp req (RemoveHeader ''Via'')) (AppendHeader ''Authorization'' cred)"



text \<open>\<open>subscribeOne\<close>, in the same three parts.\<close>

definition subscribe_request :: "'c sipgo \<Rightarrow> Config \<Rightarrow> Uri \<Rightarrow> Request" where
  "subscribe_request E c recipient =
     applyOp (applyOp (applyOp (applyOp (NewRequest ''SUBSCRIBE'' recipient)
                (AppendHeader ''Event'' ''dialog''))
                (AppendHeader ''Expires'' ''3600''))
                (AppendHeader ''Accept'' ''application/dialog-info+xml''))
       (SetTransport (ToUpper E (Transport c)))"

definition subscribe_challenge ::
  "'c sipgo \<Rightarrow> Config \<Rightarrow> string \<Rightarrow> Uri \<Rightarrow> Request \<Rightarrow> Response \<Rightarrow> sip_state
   \<Rightarrow> (string + Response) \<times> sip_state" where
  "subscribe_challenge E c extension recipient req res st =
     (case GetHeader res ''WWW-Authenticate'' of
        None \<Rightarrow> (Inl (''subscribe '' @ extension @ '': 401 without WWW-Authenticate''), st)
      | Some wwwAuth \<Rightarrow>
          (case ParseChallenge E wwwAuth of
             Inl err \<Rightarrow> (Inl (''subscribe '' @ extension @ '': parse challenge: '' @ err), st)
           | Inr chal \<Rightarrow>
               (case Digest E chal \<lparr>dMethod = Method req, dURI = Host recipient,
                                    dUsername = Username c, dPassword = Password c\<rparr> of
                  Inl err \<Rightarrow> (Inl (''subscribe '' @ extension @ '': digest: '' @ err), st)
                | Inr cred \<Rightarrow>
                    (case TransactionRequest E (authRequest req cred)
                            [ClientRequestIncreaseCSEQ, ClientRequestAddVia] st of
                       (Inl err, st2) \<Rightarrow> (Inl err, st2)
                     | (Inr (newReq, tx2), st2) \<Rightarrow> (getResponse tx2, st2)))))"

definition subscribeOne ::
  "'c sipgo \<Rightarrow> Config \<Rightarrow> string \<Rightarrow> sip_state \<Rightarrow> string option \<times> sip_state" where
  "subscribeOne E c extension st =
     (case ParseUri E (''sip:'' @ extension @ ''@'' @ Server c) of
        Inl err \<Rightarrow> (Some err, st)
      | Inr recipient \<Rightarrow>
          (case TransactionRequest E (subscribe_request E c recipient)
                  [ClientRequestBuild, ClientRequestAddVia] st of
             (Inl err, st1) \<Rightarrow> (Some err, st1)
           | (Inr (req, tx), st1) \<Rightarrow>
               (case getResponse tx of
                  Inl err \<Rightarrow> (Some err, st1)
                | Inr res \<Rightarrow>
                    (case (if StatusCode res = 401
                           then subscribe_challenge E c extension recipient req res st1
                           else (Inr res, st1)) of
                       (Inl err, st2) \<Rightarrow> (Some err, st2)
                     | (Inr res, st2) \<Rightarrow>
                         (if StatusCode res \<noteq> 200 \<and> StatusCode res \<noteq> 202
                          then (Some (''subscribe '' @ extension @ '': ''
                                       @ Itoa (StatusCode res)), st2)
                          else (None, st2))))))"

text \<open>
  \<open>Subscribe\<close>: the \<open>for\<close> loop over \<open>c.extensions\<close>, carrying \<open>failed\<close>, and the lines after
  it.
\<close>

fun Subscribe_loop ::
  "'c sipgo \<Rightarrow> Config \<Rightarrow> string list \<Rightarrow> string list \<Rightarrow> sip_state
   \<Rightarrow> string list \<times> sip_state" where
  "Subscribe_loop E c [] failed st = (failed, st)"
| "Subscribe_loop E c (ext # exts) failed st =
     (case subscribeOne E c ext st of
        (Some err, st1) \<Rightarrow>
          Subscribe_loop E c exts (failed @ [ext])
            (if Contains err ''404''
             then sipLog st1 LevelWarn ''subscribe 404 (extension may lack BLF hint on PBX)''
                    [(''extension'', VString ext),
                     (''hint'', VString
                        ''See README or FreePBX dialplan hints / res_pjsip allow_subscribe'')]
             else sipLog st1 LevelError ''subscribe failed''
                    [(''extension'', VString ext), (''error'', VString err)])
      | (None, st1) \<Rightarrow>
          Subscribe_loop E c exts failed
            (sipLog st1 LevelInfo ''subscribed to BLF'' [(''extension'', VString ext)]))"

definition Subscribe ::
  "'c sipgo \<Rightarrow> sip_Client \<Rightarrow> sip_state \<Rightarrow> string option \<times> sip_state" where
  "Subscribe E cl st =
     (case Subscribe_loop E (cfg cl) (extensions cl) [] st of
        (failed, st1) \<Rightarrow>
          (if length failed = length (extensions cl)
           then (Some (''all subscriptions failed (extensions: '' @ fmtStrings failed
                       @ ''); check PBX dialplan hints and res_pjsip allow_subscribe''), st1)
           else (None,
                 if length failed > 0
                 then sipLog st1 LevelWarn ''some extensions could not be subscribed''
                        [(''failed'', VStrings failed)]
                 else st1)))"

section \<open>Package sip: the event dispatcher\<close>

text \<open>
  The reply built by \<open>sip.NewResponseFromRequest(req, code, reason, body)\<close> is kept as that
  call. A server transaction is its method \<open>Respond\<close>, which returns an error or \<open>nil\<close>.
  What the handler does, in order, is a list of effects: the call of \<open>Respond\<close>, a log
  entry, the call of the registered handler \<open>onBLF\<close>. The field \<open>onBLF\<close> of the client says
  whether a handler is registered (is not \<open>nil\<close>).
\<close>

datatype OutgoingResponse = NewResponseFromRequest NotifyRequest int string string

record ServerTransaction =
  Respond :: "OutgoingResponse \<Rightarrow> string option"

datatype NotifyEffect =
  RespondCalled OutgoingResponse | Logged LogEntry | OnBLFCalled string State

text \<open>Lines 287 to 296: the user part of the \<open>To\<close> header value, or the empty string.\<close>

definition extensionFromTo :: "string \<Rightarrow> string" where
  "extensionFromTo val =
     (let idx = Index val '':'' in
      if idx \<ge> 0 then
        (let rest = sliceFrom val (idx + 1);
             e = IndexAny rest ''>;'';
             rest = (if e \<ge> 0 then sliceTo rest e else rest);
             at = Index rest ''@''
         in if at \<ge> 0 then sliceTo rest at else '''')
      else '''')"

text \<open>Lines 282 to 298: the extension the handler settles on.\<close>

definition notifyExtension :: "golib \<Rightarrow> NotifyRequest \<Rightarrow> string" where
  "notifyExtension X req =
     (let extension = ExtensionFromDialogInfo X (Body req) in
      if extension = '''' then
        (case GetHeader req ''To'' of
           Some val \<Rightarrow> extensionFromTo val
         | None \<Rightarrow> extension)
      else extension)"

text \<open>Lines 300 to 303: the state the handler settles on.\<close>

definition notifyState :: "golib \<Rightarrow> NotifyRequest \<Rightarrow> State" where
  "notifyState X req =
     (let state = ParseDialogInfo X (Body req) in
      if state = StateUnknown then ParsePresenceBody X (Body req) else state)"

definition handleNOTIFY ::
  "golib \<Rightarrow> sip_Client \<Rightarrow> NotifyRequest \<Rightarrow> ServerTransaction \<Rightarrow> NotifyEffect list" where
  "handleNOTIFY X cl req tx =
     (let res = NewResponseFromRequest req 200 ''OK'' '''' in
      case Respond tx res of
        Some err \<Rightarrow>
          [RespondCalled res,
           Logged (logEntry ''sip'' LevelError ''NOTIFY 200 respond failed''
                     [(''error'', VString err)])]
      | None \<Rightarrow>
          (if length (Body req) = 0 then [RespondCalled res]
           else
             (let extension = notifyExtension X req;
                  state = notifyState X req
              in if extension \<noteq> '''' \<and> onBLF cl
                 then [RespondCalled res, OnBLFCalled extension state]
                 else [RespondCalled res])))"

section \<open>Package graph: identity cache and publisher\<close>

text \<open>
  The Graph SDK, as far as the program touches it. A user object is its \<open>GetId\<close>. A
  \<open>setPresence\<close> request is the user it is posted for and the four fields of its body;
  \<open>'d\<close> is the type of a parsed ISO duration. The directory answers a lookup as a function of
  all lookups made so far (the last being the current one), and likewise the presence
  service; \<open>Inr None\<close> is a \<open>nil\<close> user with no error.
\<close>

record User =
  GetId :: "string option"

record 'd PresencePost =
  ByUserId :: string
  SessionId :: string
  Availability :: string
  Activity :: string
  ExpirationDuration :: 'd

record 'd msgraph =
  Users_Get :: "string list \<Rightarrow> goerror + User option"
  ParseISODuration :: "string \<Rightarrow> goerror + 'd"
  SetPresence_Post :: "'d PresencePost list \<Rightarrow> goerror option"

record graph_Client =
  clientID :: string
  userIDCache :: "string \<Rightarrow> string option"

text \<open>
  What the client has done: the directory lookups, the presence posts, the log. The calls
  are modelled one after the other; the read-write lock around the cache then has no effect
  and is left out.
\<close>

record 'd graph_calls =
  gets :: "string list"
  posts :: "'d PresencePost list"
  glog :: "LogEntry list"

definition graphLog ::
  "'d graph_calls \<Rightarrow> LogLevel \<Rightarrow> string \<Rightarrow> (string \<times> LogValue) list \<Rightarrow> 'd graph_calls" where
  "graphLog w l m as = w\<lparr>glog := glog w @ [logEntry ''graph'' l m as]\<rparr>"

definition expiration :: string where
  "expiration = ''PT1H''"

text \<open>
  \<open>errorChain\<close>: the loop that appends the message of the error and of every error it
  wraps, with \<open>; \<close> before each message once the string is not empty. The function is
  called with an error that is not \<open>nil\<close>.
\<close>

fun errorChain_loop :: "string \<Rightarrow> goerror \<Rightarrow> string" where
  "errorChain_loop s (errors_New m) = (if s \<noteq> '''' then s @ ''; '' else s) @ m"
| "errorChain_loop s (Wrapping m e) =
     errorChain_loop ((if s \<noteq> '''' then s @ ''; '' else s) @ m) e"

definition errorChain :: "goerror \<Rightarrow> string" where
  "errorChain err = errorChain_loop '''' err"

definition resolveUserID ::
  "'d msgraph \<Rightarrow> graph_Client \<Rightarrow> 'd graph_calls \<Rightarrow> string
   \<Rightarrow> (goerror + string) \<times> graph_Client \<times> 'd graph_calls" where
  "resolveUserID G c w upn =
     (case userIDCache c upn of
        Some cached \<Rightarrow> (Inr cached, c, w)
      | None \<Rightarrow>
          (let w1 = w\<lparr>gets := gets w @ [upn]\<rparr> in
           case Users_Get G (gets w1) of
             Inl err \<Rightarrow> (Inl err, c, w1)
           | Inr None \<Rightarrow> (Inl (errors_New ''user not found''), c, w1)
           | Inr (Some user) \<Rightarrow>
               (case GetId user of
                  None \<Rightarrow> (Inl (errors_New ''user has no id''), c, w1)
                | Some uid \<Rightarrow>
                    (if uid = '''' then (Inl (errors_New ''user has no id''), c, w1)
                     else (Inr uid,
                           c\<lparr>userIDCache := (userIDCache c)(upn \<mapsto> uid)\<rparr>,
                           graphLog w1 LevelDebug ''resolved user to object ID''
                             [(''upn'', VString upn), (''objectId'', VString uid)])))))"

definition SetPresence ::
  "'d msgraph \<Rightarrow> graph_Client \<Rightarrow> 'd graph_calls \<Rightarrow> string \<Rightarrow> string \<Rightarrow> string \<Rightarrow> string
   \<Rightarrow> goerror option \<times> graph_Client \<times> 'd graph_calls" where
  "SetPresence G c w userID extension availability activity =
     (case resolveUserID G c w userID of
        (Inl err, c1, w1) \<Rightarrow>
          (Some err, c1,
           graphLog w1 LevelError ''resolve user ID failed''
             [(''user'', VString userID), (''extension'', VString extension),
              (''error'', VString (Error err))])
      | (Inr objectID, c1, w1) \<Rightarrow>
          (case ParseISODuration G expiration of
             Inl err \<Rightarrow> (Some err, c1, w1)
           | Inr dur \<Rightarrow>
               (let body = \<lparr>ByUserId = objectID, SessionId = clientID c1,
                            Availability = availability, Activity = activity,
                            ExpirationDuration = dur\<rparr>;
                    w2 = w1\<lparr>posts := posts w1 @ [body]\<rparr>
                in case SetPresence_Post G (posts w2) of
                     Some err \<Rightarrow>
                       (Some err, c1,
                        graphLog w2 LevelError ''setPresence failed''
                          [(''user'', VString userID), (''extension'', VString extension),
                           (''availability'', VString availability),
                           (''activity'', VString activity), (''error'', VString (Error err)),
                           (''error_chain'', VString (errorChain err))])
                   | None \<Rightarrow>
                       (None, c1,
                        graphLog w2 LevelDebug ''setPresence ok''
                          [(''user'', VString userID), (''extension'', VString extension),
                           (''availability'', VString availability)]))))"

section \<open>Auxiliary notions and sample environments\<close>

text \<open>
  The passes of the loop of \<open>Subscribe\<close>, for stating what it does: the state after the
  pass for one extension, and the list of the extensions attempted, each with what
  \<open>subscribeOne\<close> returned for it in the state the loop had reached.
\<close>

definition Subscribe_after :: "'c sipgo \<Rightarrow> Config \<Rightarrow> string \<Rightarrow> sip_state \<Rightarrow> sip_state" where
  "Subscribe_after E c ext st = snd (Subscribe_loop E c [ext] [] st)"

fun Subscribe_attempts ::
  "'c sipgo \<Rightarrow> Config \<Rightarrow> string list \<Rightarrow> sip_state \<Rightarrow> (string \<times> string option) list" where
  "Subscribe_attempts E c [] st = []"
| "Subscribe_attempts E c (ext # exts) st =
     (ext, fst (subscribeOne E c ext st))
     # Subscribe_attempts E c exts (Subscribe_after E c ext st)"

definition attemptFailed :: "string \<times> string option \<Rightarrow> bool" where
  "attemptFailed a = (snd a \<noteq> None)"




text \<open>
  A sample peer that answers the n-th request handed over with the n-th entry of a script
  (and lets every later transaction die), with a plain URI parser and digest functions and
  the ASCII \<open>ToUpper\<close>; a sample configuration and client.
\<close>

definition sample_ParseUri :: "string \<Rightarrow> string + Uri" where
  "sample_ParseUri s =
     (case extractIdentifier s of
        Some u \<Rightarrow> Inr \<lparr>User = u, Host = sliceFrom s (Index s ''@'' + 1)\<rparr>
      | None \<Rightarrow> Inl ''missing scheme'')"

definition scripted_sipgo :: "(string + ClientTransaction) list \<Rightarrow> unit sipgo" where
  "scripted_sipgo script =
     \<lparr>ToUpper = asciiToUpper,
      ParseUri = sample_ParseUri,
      Transaction = (\<lambda>reqs. if 0 < length reqs \<and> length reqs \<le> length script
                             then script ! (length reqs - 1) else Inr TxDone),
      ParseChallenge = (\<lambda>h. if h = '''' then Inl ''empty challenge'' else Inr ()),
      Digest = (\<lambda>chal opts. Inr (''Digest username='' @ dUsername opts))\<rparr>"

definition sample_response :: "int \<Rightarrow> Response" where
  "sample_response code = \<lparr>GetHeader = (\<lambda>name. None), StatusCode = code\<rparr>"

definition sample_challenge :: Response where
  "sample_challenge =
     \<lparr>GetHeader = (\<lambda>name. if name = ''WWW-Authenticate''
                           then Some ''Digest realm=asterisk'' else None),
      StatusCode = 401\<rparr>"

definition reply :: "int \<Rightarrow> string + ClientTransaction" where
  "reply code = Inr (TxResponse (sample_response code))"

definition challenge :: "string + ClientTransaction" where
  "challenge = Inr (TxResponse sample_challenge)"


definition sample_Config :: Config where
  "sample_Config =
     \<lparr>Server = ''pbx:5060'', Transport = ''udp'', Username = ''blf-client'',
      Password = ''secret'', ContactIP = ''127.0.0.1'', ContactPort = 0,
      STUNServers = [], UserAgent = ''teams-freepbx-blf/1.0''\<rparr>"

definition sample_Client :: "string list \<Rightarrow> sip_Client" where
  "sample_Client exts = \<lparr>cfg = sample_Config, extensions = exts, onBLF = True\<rparr>"

definition sip_start :: sip_state where
  "sip_start = \<lparr>sent = [], slog = []\<rparr>"

text \<open>The calls of the registered handler among the effects of \<open>handleNOTIFY\<close>, in order.\<close>

fun onBLF_calls :: "NotifyEffect list \<Rightarrow> (string \<times> State) list" where
  "onBLF_calls [] = []"
| "onBLF_calls (OnBLFCalled extension state # es) = (extension, state) # onBLF_calls es"
| "onBLF_calls (e # es) = onBLF_calls es"

text \<open>
  Sample notifications: the two test documents as bodies, without and with a \<open>To\<close> header,
  and server transactions whose \<open>Respond\<close> succeeds and fails.
\<close>

definition notify_confirmed :: NotifyRequest where
  "notify_confirmed = \<lparr>GetHeader = (\<lambda>name. None), Body = body_confirmed\<rparr>"

definition notify_NoNamespace_To :: NotifyRequest where
  "notify_NoNamespace_To =
     \<lparr>GetHeader = (\<lambda>name. if name = ''To'' then Some ''<sip:6000@pbx>;tag=as1'' else None),
      Body = body_NoNamespace\<rparr>"

definition tx_ok :: ServerTransaction where
  "tx_ok = \<lparr>Respond = (\<lambda>res. None)\<rparr>"

definition tx_broken :: ServerTransaction where
  "tx_broken = \<lparr>Respond = (\<lambda>res. Some ''transport: connection closed'')\<rparr>"

text \<open>
  Two calls of \<open>resolveUserID\<close> with the same identifier, one after the other, and sample
  directories: one that knows nobody, one that knows one user, one that gives a fixed
  answer to every lookup.
\<close>

definition resolveTwice ::
  "'d msgraph \<Rightarrow> graph_Client \<Rightarrow> 'd graph_calls \<Rightarrow> string
   \<Rightarrow> (goerror + string) \<times> graph_Client \<times> 'd graph_calls" where
  "resolveTwice G c w upn =
     (case resolveUserID G c w upn of (r1, c1, w1) \<Rightarrow> resolveUserID G c1 w1 upn)"

definition graph_nobody :: "nat msgraph" where
  "graph_nobody =
     \<lparr>Users_Get = (\<lambda>history. Inl (errors_New ''Request_ResourceNotFound'')),
      ParseISODuration = (\<lambda>s. if s = ''PT1H'' then Inr 3600
                              else Inl (errors_New ''bad duration'')),
      SetPresence_Post = (\<lambda>history. None)\<rparr>"

definition graph_one_user :: "bool \<Rightarrow> nat msgraph" where
  "graph_one_user post_ok =
     \<lparr>Users_Get = (\<lambda>history.
        if last history = ''user1@contoso.com''
        then Inr (Some \<lparr>GetId = Some ''8f3c-guid''\<rparr>)
        else Inl (errors_New ''Request_ResourceNotFound'')),
      ParseISODuration = (\<lambda>s. if s = ''PT1H'' then Inr 3600
                              else Inl (errors_New ''bad duration'')),
      SetPresence_Post = (\<lambda>history.
        if post_ok then None
        else Some (Wrapping ''503 service unavailable'' (errors_New ''connection reset'')))\<rparr>"

definition graph_directory :: "goerror + User option \<Rightarrow> nat msgraph" where
  "graph_directory answer =
     \<lparr>Users_Get = (\<lambda>history. answer),
      ParseISODuration = (\<lambda>s. if s = ''PT1H'' then Inr 3600
                              else Inl (errors_New ''bad duration'')),
      SetPresence_Post = (\<lambda>history. None)\<rparr>"

definition graph_client0 :: graph_Client where
  "graph_client0 = \<lparr>clientID = ''app-id'', userIDCache = Map.empty\<rparr>"

definition graph_client1 :: graph_Client where
  "graph_client1 =
     graph_client0\<lparr>userIDCache :=
       (userIDCache graph_client0)(''user1@contoso.com'' \<mapsto> ''8f3c-guid'')\<rparr>"

definition graph_start :: "nat graph_calls" where
  "graph_start = \<lparr>gets = [], posts = [], glog = []\<rparr>"

section \<open>The state mapper\<close>

lemma State_distinct:
  "StateIdle \<noteq> StateRinging" "StateIdle \<noteq> StateBusy" "StateIdle \<noteq> StateUnknown"
  "StateRinging \<noteq> StateBusy" "StateRinging \<noteq> StateUnknown" "StateBusy \<noteq> StateUnknown"
  by (simp_all add: StateIdle_def StateRinging_def StateBusy_def StateUnknown_def)

text \<open>
  C4. \<open>ToGraph\<close> is a function of the state alone, defined on every string: idle goes to
  (Available, Available), ringing and busy go to (Busy, InACall), unknown goes to
  (Available, Available), and so does every value that is none of the four constants; in all,
  the result is (Busy, InACall) exactly for ringing and busy and (Available, Available) for
  every other input.
\<close>

theorem ToGraph_total:
  "ToGraph StateIdle = (''Available'', ''Available'')
   \<and> ToGraph StateRinging = (''Busy'', ''InACall'')
   \<and> ToGraph StateBusy = (''Busy'', ''InACall'')
   \<and> ToGraph StateUnknown = (''Available'', ''Available'')
   \<and> (\<forall>s. ToGraph s = (if s = StateRinging \<or> s = StateBusy
                          then (''Busy'', ''InACall'') else (''Available'', ''Available'')))"
  using State_distinct
  by (simp add: ToGraph_def GraphAvailabilityAvailable_def GraphAvailabilityBusy_def
      GraphActivityAvailable_def GraphActivityInACall_def)

section \<open>The dialog-info parser\<close>

lemma asciiSpace_asciiLower: "asciiSpace (asciiLower c) = asciiSpace c"
  by (cases c) (simp add: asciiSpace_def asciiLower_def char_of_def)

lemma dropWhile_asciiSpace_asciiToLower:
  "dropWhile asciiSpace (asciiToLower s) = asciiToLower (dropWhile asciiSpace s)"
  by (induction s) (simp_all add: asciiToLower_def asciiSpace_asciiLower)

lemma asciiTrimSpace_asciiToLower:
  "asciiTrimSpace (asciiToLower s) = asciiToLower (asciiTrimSpace s)"
proof -
  have r: "rev (asciiToLower t) = asciiToLower (rev t)" for t
    by (simp add: asciiToLower_def rev_map)
  show ?thesis
    by (simp add: asciiTrimSpace_def dropWhile_asciiSpace_asciiToLower r)
qed

lemma asciiToLower_eq_Nil: "(asciiToLower s = []) = (s = [])"
  by (simp add: asciiToLower_def)

lemma isASCII_asciiLower: "(of_char c :: nat) < 128 \<Longrightarrow> (of_char (asciiLower c) :: nat) < 128"
  by (simp add: asciiLower_def)

lemma isASCII_asciiToLower: "isASCII s \<Longrightarrow> isASCII (asciiToLower s)"
  by (simp add: isASCII_def asciiToLower_def list_all_iff isASCII_asciiLower)

lemma isASCII_asciiTrimSpace: "isASCII s \<Longrightarrow> isASCII (asciiTrimSpace s)"
proof -
  assume a: "isASCII s"
  have "set (asciiTrimSpace s) \<subseteq> set s"
    unfolding asciiTrimSpace_def
    by (metis set_dropWhileD set_rev subsetI)
  then show ?thesis
    using a by (auto simp: isASCII_def list_all_iff)
qed

lemma go_strings_TrimSpace:
  "go_strings_on_ascii X \<Longrightarrow> isASCII s \<Longrightarrow> TrimSpace X s = asciiTrimSpace s"
  by (simp add: go_strings_on_ascii_def)

lemma go_strings_ToLower:
  "go_strings_on_ascii X \<Longrightarrow> isASCII s \<Longrightarrow> ToLower X s = asciiToLower s"
  by (simp add: go_strings_on_ascii_def)

lemma dialogState_eq:
  "dialogState X d =
     ToLower X (if TrimSpace X (State d) = '''' then TrimSpace X (StateAttr d)
                else TrimSpace X (State d))"
  by (simp add: dialogState_def Let_def)

lemma dialogStateStr_eq:
  "dialogStateStr X s a =
     (if TrimSpace X (ToLower X s) = '''' then TrimSpace X (ToLower X a)
      else TrimSpace X (ToLower X s))"
  by (simp add: dialogStateStr_def Let_def)

lemma dialogState_ascii:
  assumes "go_strings_on_ascii X" "isASCII (State d)" "isASCII (StateAttr d)"
  shows "dialogState X d = trimmed_effective_state (State d) (StateAttr d)"
  using assms
  by (simp add: dialogState_eq trimmed_effective_state_def go_strings_TrimSpace
      go_strings_ToLower isASCII_asciiTrimSpace)

lemma dialogStateStr_ascii:
  assumes "go_strings_on_ascii X" "isASCII s" "isASCII a"
  shows "dialogStateStr X s a = trimmed_effective_state s a"
  using assms
  by (simp add: dialogStateStr_eq trimmed_effective_state_def go_strings_TrimSpace
      go_strings_ToLower isASCII_asciiToLower asciiTrimSpace_asciiToLower asciiToLower_eq_Nil)

lemma dialogsToState_loop_scan:
  "dialogsToState_loop X ds = spec_scan (map (dialogState X) ds)"
  by (induction ds) (simp_all add: spec_scan_def spec_verdict_def spec_skipped_def Let_def)

lemma dialogsToState_scan:
  "dialogsToState X ds = spec_scan (map (dialogState X) ds)"
  by (cases ds)
    (simp_all add: dialogsToState_def dialogsToState_loop_scan spec_scan_def spec_verdict_def)

lemma dialogsNoNSToState_loop_scan:
  "dialogsNoNSToState_loop X ns =
     spec_scan (map (\<lambda>d. dialogStateStr X (State_NoNS d) (StateAttr_NoNS d)) ns)"
  by (induction ns)
    (simp_all add: spec_scan_def spec_verdict_def spec_skipped_def Let_def)

lemma dialogsNoNSToState_scan:
  "dialogsNoNSToState X ns =
     spec_scan (map (\<lambda>d. dialogStateStr X (State_NoNS d) (StateAttr_NoNS d)) ns)"
  by (cases ns)
    (simp_all add: dialogsNoNSToState_def dialogsNoNSToState_loop_scan spec_scan_def
      spec_verdict_def)

lemma spec_scan_idle: "(spec_scan ts = StateIdle) = list_all spec_skipped ts"
  by (induction ts) (simp_all add: spec_scan_def spec_verdict_def State_distinct[symmetric])

lemma spec_scan_range:
  "spec_scan ts = StateIdle \<or> spec_scan ts = StateRinging \<or> spec_scan ts = StateBusy"
  by (simp add: spec_scan_def spec_verdict_def split: option.splits)

lemma spec_scan_not_unknown: "spec_scan ts \<noteq> StateUnknown"
  using spec_scan_range [of ts] State_distinct by auto

lemma ParseDialogInfo_scan:
  "ParseDialogInfo X body =
     (case Unmarshal_DialogInfo X body of
        Some info \<Rightarrow> spec_scan (map (dialogState X) (Dialogs info))
      | None \<Rightarrow>
          (case Unmarshal_dialogInfoNoNS X body of
             None \<Rightarrow> StateUnknown
           | Some i \<Rightarrow>
               spec_scan (map (\<lambda>d. dialogStateStr X (State_NoNS d) (StateAttr_NoNS d))
                 (Dialogs_NoNS i))))"
  by (simp add: ParseDialogInfo_def dialogsToState_scan dialogsNoNSToState_scan
      split: option.splits)

lemma trimmed_examples:
  "trimmed_effective_state ''terminated'' '''' = ''terminated''"
  "trimmed_effective_state ''early'' '''' = ''early''"
  "trimmed_effective_state ''confirmed'' '''' = ''confirmed''"
  "trimmed_effective_state '' TERMINATED '' '''' = ''terminated''"
  "trimmed_effective_state '''' ''Early'' = ''early''"
  "trimmed_effective_state ''  '' ''Confirmed'' = ''confirmed''"
  "trimmed_effective_state ''On-Hold'' '''' = ''on-hold''"
  "trimmed_effective_state ''On-Hold'' ''terminated'' = ''on-hold''"
  by code_simp+

lemma isASCII_examples:
  "isASCII ''''" "isASCII ''terminated''" "isASCII ''early''" "isASCII ''confirmed''"
  "isASCII '' TERMINATED ''" "isASCII ''Early''" "isASCII ''  ''" "isASCII ''Confirmed''"
  "isASCII ''On-Hold''"
  by (simp_all add: isASCII_def)

lemma dialogState_dialogWithState:
  "go_strings_on_ascii X \<Longrightarrow> isASCII s \<Longrightarrow>
   dialogState X (dialogWithState s) = trimmed_effective_state s ''''"
  using dialogState_ascii [of X "dialogWithState s"]
  by (simp add: dialogWithState_def isASCII_def)

lemma dialogState_dialogWithStateAttr:
  "go_strings_on_ascii X \<Longrightarrow> isASCII a \<Longrightarrow>
   dialogState X (dialogWithStateAttr a) = trimmed_effective_state '''' a"
  using dialogState_ascii [of X "dialogWithStateAttr a"]
  by (simp add: dialogWithStateAttr_def isASCII_def)

lemma precedence_example:
  "go_strings_on_ascii X \<Longrightarrow>
   dialogsToState X [dialogWithState ''terminated'', dialogWithState ''early'',
                     dialogWithState ''confirmed''] = StateRinging"
  by (simp add: dialogsToState_scan dialogState_dialogWithState isASCII_examples
      trimmed_examples spec_scan_def spec_skipped_def spec_verdict_def)

lemma mixed_case_example:
  "go_strings_on_ascii X \<Longrightarrow>
   dialogsToState X [dialogWithState '' TERMINATED '', dialogWithStateAttr ''Early'',
                     dialogWithState ''confirmed''] = StateRinging"
  by (simp add: dialogsToState_scan dialogState_dialogWithState
      dialogState_dialogWithStateAttr isASCII_examples trimmed_examples spec_scan_def
      spec_skipped_def spec_verdict_def)

lemma other_token_example:
  "go_strings_on_ascii X \<Longrightarrow>
   dialogsToState X [dialogWithState ''terminated'', dialogWithState ''On-Hold'',
                     dialogWithState ''early''] = StateBusy"
  using dialogState_dialogWithState [of X "''On-Hold''"]
  by (simp add: dialogsToState_scan dialogState_dialogWithState isASCII_examples
      trimmed_examples spec_scan_def spec_skipped_def spec_verdict_def)

lemma nons_example:
  "go_strings_on_ascii X \<Longrightarrow>
   dialogsNoNSToState X
     [\<lparr>ID_NoNS = ''a'', State_NoNS = '' TERMINATED '', StateAttr_NoNS = ''''\<rparr>,
      \<lparr>ID_NoNS = ''b'', State_NoNS = ''  '', StateAttr_NoNS = ''Confirmed''\<rparr>,
      \<lparr>ID_NoNS = ''c'', State_NoNS = ''early'', StateAttr_NoNS = ''''\<rparr>] = StateBusy"
  by (simp add: dialogsNoNSToState_scan dialogStateStr_ascii isASCII_examples
      trimmed_examples spec_scan_def spec_skipped_def spec_verdict_def)

text \<open>
  C2. Whatever the library returns, \<open>ParseDialogInfo\<close> is the scan of the specification over
  the effective states of the decoded sub-dialogs, in document order, under the namespaced
  schema and under the namespace-free one: terminated and empty states are skipped; the
  first other state gives ringing for trying, early and proceeding and busy for confirmed
  and for any other token; the result is idle exactly when every entry is skipped (the empty
  list included). The effective state is the child text with surrounding white space
  removed by \<open>strings.TrimSpace\<close>, or the likewise trimmed attribute when that is empty,
  lowered by \<open>strings.ToLower\<close> (on the namespace-free path the text is lowered first and
  trimmed then). On ASCII text that is the trimmed text or else the trimmed attribute in
  lower case, on both paths: terminated, early, confirmed gives ringing, and so does
  TERMINATED with spaces around it, then Early as an attribute, then confirmed.
\<close>

theorem ParseDialogInfo_first_active_dialog:
  "dialogState X d =
     ToLower X (if TrimSpace X (State d) = '''' then TrimSpace X (StateAttr d)
                else TrimSpace X (State d))
   \<and> dialogStateStr X s a =
       (if TrimSpace X (ToLower X s) = '''' then TrimSpace X (ToLower X a)
        else TrimSpace X (ToLower X s))
   \<and> dialogsToState X ds = spec_scan (map (dialogState X) ds)
   \<and> dialogsNoNSToState X ns =
       spec_scan (map (\<lambda>d. dialogStateStr X (State_NoNS d) (StateAttr_NoNS d)) ns)
   \<and> ParseDialogInfo X body =
       (case Unmarshal_DialogInfo X body of
          Some info \<Rightarrow> spec_scan (map (dialogState X) (Dialogs info))
        | None \<Rightarrow>
            (case Unmarshal_dialogInfoNoNS X body of
               None \<Rightarrow> StateUnknown
             | Some i \<Rightarrow>
                 spec_scan (map (\<lambda>d. dialogStateStr X (State_NoNS d) (StateAttr_NoNS d))
                   (Dialogs_NoNS i))))
   \<and> dialogsToState X [] = StateIdle
   \<and> dialogsNoNSToState X [] = StateIdle
   \<and> (dialogsToState X ds = StateIdle) = list_all (\<lambda>d. spec_skipped (dialogState X d)) ds
   \<and> (dialogsNoNSToState X ns = StateIdle) =
       list_all (\<lambda>d. spec_skipped (dialogStateStr X (State_NoNS d) (StateAttr_NoNS d))) ns
   \<and> trimmed_effective_state '' TERMINATED '' '''' = ''terminated''
   \<and> trimmed_effective_state '''' ''Early'' = ''early''
   \<and> trimmed_effective_state ''  '' ''Confirmed'' = ''confirmed''
   \<and> (go_strings_on_ascii X \<longrightarrow>
        (isASCII (State d) \<and> isASCII (StateAttr d) \<longrightarrow>
           dialogState X d = trimmed_effective_state (State d) (StateAttr d))
        \<and> (isASCII s \<and> isASCII a \<longrightarrow> dialogStateStr X s a = trimmed_effective_state s a)
        \<and> dialogsToState X [dialogWithState ''terminated'', dialogWithState ''early'',
                             dialogWithState ''confirmed''] = StateRinging
        \<and> dialogsToState X [dialogWithState '' TERMINATED '', dialogWithStateAttr ''Early'',
                             dialogWithState ''confirmed''] = StateRinging
        \<and> dialogsToState X [dialogWithState ''terminated'', dialogWithState ''On-Hold'',
                             dialogWithState ''early''] = StateBusy
        \<and> dialogsNoNSToState X
             [\<lparr>ID_NoNS = ''a'', State_NoNS = '' TERMINATED '', StateAttr_NoNS = ''''\<rparr>,
              \<lparr>ID_NoNS = ''b'', State_NoNS = ''  '', StateAttr_NoNS = ''Confirmed''\<rparr>,
              \<lparr>ID_NoNS = ''c'', State_NoNS = ''early'', StateAttr_NoNS = ''''\<rparr>] = StateBusy)"
proof -
  have idle: "(dialogsToState X ds = StateIdle) =
      list_all (\<lambda>d. spec_skipped (dialogState X d)) ds"
    by (simp add: dialogsToState_scan spec_scan_idle list_all_iff)
  have idleN: "(dialogsNoNSToState X ns = StateIdle) =
      list_all (\<lambda>d. spec_skipped (dialogStateStr X (State_NoNS d) (StateAttr_NoNS d))) ns"
    by (simp add: dialogsNoNSToState_scan spec_scan_idle list_all_iff)
  have empty: "dialogsToState X [] = StateIdle" "dialogsNoNSToState X [] = StateIdle"
    by (simp_all add: dialogsToState_def dialogsNoNSToState_def)
  show ?thesis
    using dialogState_eq [of X d] dialogStateStr_eq [of X s a] dialogsToState_scan [of X ds]
      dialogsNoNSToState_scan [of X ns] ParseDialogInfo_scan [of X body] empty idle idleN
      trimmed_examples dialogState_ascii [of X d] dialogStateStr_ascii [of X s a]
      precedence_example [of X] mixed_case_example [of X] other_token_example [of X]
      nons_example [of X]
    by blast
qed

lemma go_strings_on_ascii_tests: "go_strings_on_ascii xml_of_tests"
  by (simp add: go_strings_on_ascii_def xml_of_tests_def)

theorem ParseDialogInfo_first_active_dialog_witness:
  "go_strings_on_ascii xml_of_tests
   \<and> isASCII '' TERMINATED '' \<and> isASCII ''Early''
   \<and> dialogState xml_of_tests (dialogWithState '' TERMINATED '') = ''terminated''
   \<and> dialogStateStr xml_of_tests '''' ''Early'' = ''early''
   \<and> dialogsToState xml_of_tests
        [dialogWithState ''terminated'', dialogWithState ''early'',
         dialogWithState ''confirmed''] = StateRinging
   \<and> dialogsToState xml_of_tests
        [dialogWithState '' TERMINATED '', dialogWithStateAttr ''Early'',
         dialogWithState ''confirmed''] = StateRinging"
proof -
  note T = ParseDialogInfo_first_active_dialog
    [where X = xml_of_tests and d = "dialogWithState '' TERMINATED ''" and s = "''''"
      and a = "''Early''", THEN conjunct2, THEN conjunct2, THEN conjunct2, THEN conjunct2,
      THEN conjunct2, THEN conjunct2, THEN conjunct2, THEN conjunct2, THEN conjunct2,
      THEN conjunct2, THEN conjunct2, THEN conjunct2, THEN mp, OF go_strings_on_ascii_tests]
  have d: "State (dialogWithState '' TERMINATED '') = '' TERMINATED ''"
    "StateAttr (dialogWithState '' TERMINATED '') = ''''"
    by (simp_all add: dialogWithState_def)
  show ?thesis
    using T go_strings_on_ascii_tests isASCII_examples
    by (simp add: d trimmed_examples)
qed

text \<open>
  Against the reading that the effective state is the text as it stands: a sub-dialog whose
  state element reads terminated with a space on either side is skipped by the code, so the
  result is idle, while the text as it stands is neither terminated nor empty and would
  give busy.
\<close>

theorem dialogsToState_trims_white_space:
  "dialogsToState xml_of_tests [dialogWithState '' terminated ''] = StateIdle
   \<and> spec_scan (map (\<lambda>d. spec_effective_state (State d) (StateAttr d))
        [dialogWithState '' terminated '']) = StateBusy"
proof -
  have t: "trimmed_effective_state '' terminated '' '''' = ''terminated''"
    by code_simp
  have a: "isASCII '' terminated ''"
    by (simp add: isASCII_def)
  have c: "dialogsToState xml_of_tests [dialogWithState '' terminated ''] = StateIdle"
    by (simp add: dialogsToState_scan dialogState_dialogWithState [OF go_strings_on_ascii_tests a]
        t spec_scan_def spec_skipped_def spec_verdict_def)
  have e: "spec_effective_state '' terminated '' '''' = '' terminated ''"
    by code_simp
  have s: "spec_scan (map (\<lambda>d. spec_effective_state (State d) (StateAttr d))
        [dialogWithState '' terminated '']) = StateBusy"
    by (simp add: dialogWithState_def e spec_scan_def spec_skipped_def spec_verdict_def)
  show ?thesis using c s by simp
qed

text \<open>
  C5. \<open>ParseDialogInfo\<close> has a state for every body, one of the four constants, and no error
  result. It reads the namespace-free decoding only when the namespaced one fails, and its
  result is unknown if and only if both decodings fail.
\<close>

theorem ParseDialogInfo_unknown_iff:
  "(ParseDialogInfo X body = StateUnknown) =
     (Unmarshal_DialogInfo X body = None \<and> Unmarshal_dialogInfoNoNS X body = None)
   \<and> (ParseDialogInfo X body = StateIdle \<or> ParseDialogInfo X body = StateRinging
      \<or> ParseDialogInfo X body = StateBusy \<or> ParseDialogInfo X body = StateUnknown)
   \<and> ParseDialogInfo X body =
       (case Unmarshal_DialogInfo X body of
          Some info \<Rightarrow> dialogsToState X (Dialogs info)
        | None \<Rightarrow>
            (case Unmarshal_dialogInfoNoNS X body of
               None \<Rightarrow> StateUnknown
             | Some i \<Rightarrow> dialogsNoNSToState X (Dialogs_NoNS i)))"
proof -
  have a: "(ParseDialogInfo X body = StateUnknown) =
     (Unmarshal_DialogInfo X body = None \<and> Unmarshal_dialogInfoNoNS X body = None)"
    by (simp add: ParseDialogInfo_scan spec_scan_not_unknown split: option.splits)
  have b: "ParseDialogInfo X body = StateIdle \<or> ParseDialogInfo X body = StateRinging
      \<or> ParseDialogInfo X body = StateBusy \<or> ParseDialogInfo X body = StateUnknown"
    using spec_scan_range by (auto simp: ParseDialogInfo_scan split: option.splits)
  have c: "ParseDialogInfo X body =
       (case Unmarshal_DialogInfo X body of
          Some info \<Rightarrow> dialogsToState X (Dialogs info)
        | None \<Rightarrow>
            (case Unmarshal_dialogInfoNoNS X body of
               None \<Rightarrow> StateUnknown
             | Some i \<Rightarrow> dialogsNoNSToState X (Dialogs_NoNS i)))"
    by (simp add: ParseDialogInfo_def split: option.splits)
  show ?thesis using a b c by blast
qed

section \<open>Subscribe\<close>

lemma Subscribe_loop_Cons:
  "Subscribe_loop E c (ext # exts) failed st =
     Subscribe_loop E c exts
       (if fst (subscribeOne E c ext st) \<noteq> None then failed @ [ext] else failed)
       (Subscribe_after E c ext st)"
  by (simp add: Subscribe_after_def split: prod.splits option.splits)

lemma Subscribe_loop_failed:
  "fst (Subscribe_loop E c exts failed st) =
     failed @ map fst (filter attemptFailed (Subscribe_attempts E c exts st))"
proof (induction exts arbitrary: failed st)
  case Nil
  then show ?case by simp
next
  case (Cons ext exts)
  show ?case
    unfolding Subscribe_loop_Cons
    by (simp add: Cons.IH attemptFailed_def)
qed

lemma Subscribe_attempts_exts: "map fst (Subscribe_attempts E c exts st) = exts"
  by (induction exts arbitrary: st) simp_all

lemma length_filter_eq: "(length (filter P xs) = length xs) = list_all P xs"
proof (induction xs)
  case Nil
  then show ?case by simp
next
  case (Cons a xs)
  have le: "length (filter P xs) \<le> length xs" by simp
  show ?case
  proof (cases "P a")
    case True
    then show ?thesis by (simp add: Cons)
  next
    case False
    from le have "length (filter P xs) \<noteq> Suc (length xs)" by linarith
    then show ?thesis using False by simp
  qed
qed

lemma Subscribe_all_failed_iff:
  "(length (fst (Subscribe_loop E c exts [] st)) = length exts) =
     list_all attemptFailed (Subscribe_attempts E c exts st)"
proof -
  let ?as = "Subscribe_attempts E c exts st"
  have l: "length ?as = length exts"
    using Subscribe_attempts_exts [of E c exts st] by (metis length_map)
  have "(length (fst (Subscribe_loop E c exts [] st)) = length exts) =
        (length (filter attemptFailed ?as) = length ?as)"
    by (simp add: Subscribe_loop_failed l)
  then show ?thesis
    by (simp add: length_filter_eq)
qed

lemma Subscribe_eq:
  "Subscribe E cl st =
     (let as = Subscribe_attempts E (cfg cl) (extensions cl) st;
          failed = map fst (filter attemptFailed as);
          st1 = snd (Subscribe_loop E (cfg cl) (extensions cl) [] st)
      in if list_all attemptFailed as
         then (Some (''all subscriptions failed (extensions: '' @ fmtStrings failed
                     @ ''); check PBX dialplan hints and res_pjsip allow_subscribe''), st1)
         else (None,
               if failed = [] then st1
               else sipLog st1 LevelWarn ''some extensions could not be subscribed''
                      [(''failed'', VStrings failed)]))"
proof -
  obtain failed st1 where loop: "Subscribe_loop E (cfg cl) (extensions cl) [] st = (failed, st1)"
    by (cases "Subscribe_loop E (cfg cl) (extensions cl) [] st")
  have f: "failed = map fst (filter attemptFailed
             (Subscribe_attempts E (cfg cl) (extensions cl) st))"
    using Subscribe_loop_failed [of E "cfg cl" "extensions cl" "[]" st] loop by simp
  have a: "(length failed = length (extensions cl)) =
             list_all attemptFailed (Subscribe_attempts E (cfg cl) (extensions cl) st)"
    using Subscribe_all_failed_iff [of E "cfg cl" "extensions cl" st] loop by simp
  show ?thesis
    unfolding Subscribe_def loop Let_def
    by (simp add: a) (simp add: f)
qed

text \<open>
  C1. For a non-empty list of extensions, \<open>Subscribe\<close> calls \<open>subscribeOne\<close> once for every
  extension, in order, whatever the earlier calls returned; the extensions it marks failed
  are exactly those whose own call returned an error (a 404 among them); it returns the
  aggregate error if and only if every call failed, and otherwise returns \<open>nil\<close> and, when
  some call failed, logs the failed extensions in a warning.
\<close>

theorem Subscribe_partial_failure:
  assumes "extensions cl \<noteq> []"
  shows "map fst (Subscribe_attempts E (cfg cl) (extensions cl) st) = extensions cl
   \<and> fst (Subscribe_loop E (cfg cl) (extensions cl) [] st) =
       map fst (filter attemptFailed (Subscribe_attempts E (cfg cl) (extensions cl) st))
   \<and> (fst (Subscribe E cl st) \<noteq> None) =
       list_all attemptFailed (Subscribe_attempts E (cfg cl) (extensions cl) st)
   \<and> (fst (Subscribe E cl st) = None) =
       list_ex (\<lambda>a. snd a = None) (Subscribe_attempts E (cfg cl) (extensions cl) st)
   \<and> Subscribe E cl st =
       (let as = Subscribe_attempts E (cfg cl) (extensions cl) st;
            failed = map fst (filter attemptFailed as);
            st1 = snd (Subscribe_loop E (cfg cl) (extensions cl) [] st)
        in if list_all attemptFailed as
           then (Some (''all subscriptions failed (extensions: '' @ fmtStrings failed
                       @ ''); check PBX dialplan hints and res_pjsip allow_subscribe''), st1)
           else (None,
                 if failed = [] then st1
                 else sipLog st1 LevelWarn ''some extensions could not be subscribed''
                        [(''failed'', VStrings failed)]))"
proof -
  let ?as = "Subscribe_attempts E (cfg cl) (extensions cl) st"
  have e: "(fst (Subscribe E cl st) \<noteq> None) = list_all attemptFailed ?as"
    by (simp add: Subscribe_eq [of E cl st] Let_def)
  have n: "(fst (Subscribe E cl st) = None) = list_ex (\<lambda>a. snd a = None) ?as"
  proof -
    have "(fst (Subscribe E cl st) = None) = (\<not> list_all attemptFailed ?as)"
      using e by auto
    also have "\<dots> = list_ex (\<lambda>a. snd a = None) ?as"
      by (simp add: list_all_iff list_ex_iff attemptFailed_def)
    finally show ?thesis .
  qed
  have f: "fst (Subscribe_loop E (cfg cl) (extensions cl) [] st) =
      map fst (filter attemptFailed ?as)"
    by (simp add: Subscribe_loop_failed)
  show ?thesis
    by (intro conjI) (rule Subscribe_attempts_exts, rule f, rule e, rule n, rule Subscribe_eq)
qed

lemma Subscribe_attempts_sample:
  "Subscribe_attempts (scripted_sipgo [reply 200, reply 404, reply 200]) sample_Config
     [''A'', ''B'', ''C''] sip_start
   = [(''A'', None), (''B'', Some ''subscribe B: 404''), (''C'', None)]"
  by code_simp

theorem Subscribe_partial_failure_witness:
  "extensions (sample_Client [''A'', ''B'', ''C'']) \<noteq> []
   \<and> fst (Subscribe (scripted_sipgo [reply 200, reply 404, reply 200])
            (sample_Client [''A'', ''B'', ''C'']) sip_start) = None
   \<and> fst (Subscribe_loop (scripted_sipgo [reply 200, reply 404, reply 200])
            sample_Config [''A'', ''B'', ''C''] [] sip_start) = [''B'']
   \<and> last (slog (snd (Subscribe (scripted_sipgo [reply 200, reply 404, reply 200])
            (sample_Client [''A'', ''B'', ''C'']) sip_start)))
       = logEntry ''sip'' LevelWarn ''some extensions could not be subscribed''
           [(''failed'', VStrings [''B''])]"
proof -
  have ne: "extensions (sample_Client [''A'', ''B'', ''C'']) \<noteq> []"
    by (simp add: sample_Client_def)
  have c: "cfg (sample_Client [''A'', ''B'', ''C'']) = sample_Config"
    and x: "extensions (sample_Client [''A'', ''B'', ''C'']) = [''A'', ''B'', ''C'']"
    by (simp_all add: sample_Client_def)
  show ?thesis
    using Subscribe_partial_failure
      [OF ne, of "scripted_sipgo [reply 200, reply 404, reply 200]" sip_start]
    unfolding c x Subscribe_attempts_sample
    by (simp add: attemptFailed_def sipLog_def Let_def del: Subscribe_loop.simps)
qed

text \<open>
  C10. With an empty list of extensions the loop makes no attempt, \<open>failed\<close> stays empty, and
  since its length equals the length of the list \<open>Subscribe\<close> returns the aggregate error
  (no request is sent and nothing is logged).
\<close>

theorem Subscribe_empty_list:
  "Subscribe E (cl\<lparr>extensions := []\<rparr>) st =
     (Some (''all subscriptions failed (extensions: []); ''
            @ ''check PBX dialplan hints and res_pjsip allow_subscribe''), st)
   \<and> Subscribe_attempts E (cfg cl) [] st = []"
  by (simp add: Subscribe_def fmtStrings_def)

section \<open>Register\<close>

lemma TransactionRequest_sent:
  "sent (snd (TransactionRequest E req opts st)) = sent st @ [applyOp req (Options opts)]"
  by (simp add: TransactionRequest_def Let_def split: sum.splits)






















section \<open>The resource identifier\<close>

lemma Index_single:
  "Index s [c] = (if c \<in> set s then int (length (takeWhile (\<lambda>x. x \<noteq> c) s)) else - 1)"
  by (induction s) (auto simp: Let_def)

lemma sliceFrom_after:
  "c \<in> set s \<Longrightarrow>
   sliceFrom s (int (length (takeWhile (\<lambda>x. x \<noteq> c) s)) + 1) = tl (dropWhile (\<lambda>x. x \<noteq> c) s)"
  by (induction s) (auto simp: sliceFrom_def nat_add_distrib)

lemma sliceTo_before: "sliceTo s (int (length (takeWhile P s))) = takeWhile P s"
  by (induction s) (auto simp: sliceTo_def)

lemma takeWhile_absent: "c \<notin> set s \<Longrightarrow> takeWhile (\<lambda>x. x \<noteq> c) s = s"
  by (induction s) auto

lemma extractIdentifier_eq:
  "extractIdentifier uri =
     (if CHR '':'' \<in> set uri then Some (spec_identifier uri) else None)"
  by (simp add: extractIdentifier_def Index_single Let_def sliceFrom_after sliceTo_before
      takeWhile_absent spec_identifier_def)

lemma ExtensionFromDialogInfo_namespaced:
  "Unmarshal_DialogInfo X body = Some info \<Longrightarrow>
   ExtensionFromDialogInfo X body =
     (if CHR '':'' \<in> set (Entity info) then spec_identifier (Entity info)
      else case Dialogs info of
             [] \<Rightarrow> ''''
           | d0 # rest \<Rightarrow>
               if CHR '':'' \<in> set (Identity (Local d0))
               then spec_identifier (Identity (Local d0)) else '''')"
  by (auto simp: ExtensionFromDialogInfo_def extractIdentifier_eq split: list.splits)

text \<open>
  C9. Under the namespaced schema \<open>ExtensionFromDialogInfo\<close> follows the rule of the
  specification (lemma \<open>ExtensionFromDialogInfo_namespaced\<close>). It decodes under that schema
  only: for a body the namespaced decoding refuses it returns the empty string, whatever
  the entity attribute says, while \<open>ParseDialogInfo\<close> goes on to the namespace-free schema
  and accepts the body. The document of \<open>TestParseDialogInfo_NoNamespace\<close>, with entity
  \<open>sip:6000@pbx\<close>, is parsed as busy and yields no extension.
\<close>

theorem ExtensionFromDialogInfo_namespace_only:
  "Unmarshal_DialogInfo X body = None \<Longrightarrow>
   ExtensionFromDialogInfo X body = ''''
   \<and> ParseDialogInfo X body =
       (case Unmarshal_dialogInfoNoNS X body of
          None \<Rightarrow> StateUnknown
        | Some i \<Rightarrow> dialogsNoNSToState X (Dialogs_NoNS i))"
  by (simp add: ExtensionFromDialogInfo_def ParseDialogInfo_def)

lemma bodies_differ: "body_NoNamespace \<noteq> body_confirmed"
  by (simp add: body_NoNamespace_def body_confirmed_def quoted_def)

lemma dialogStateStr_confirmed: "dialogStateStr xml_of_tests ''confirmed'' '''' = ''confirmed''"
  by code_simp

theorem ExtensionFromDialogInfo_namespace_only_witness:
  "Unmarshal_DialogInfo xml_of_tests body_NoNamespace = None
   \<and> map_option Entity_NoNS (Unmarshal_dialogInfoNoNS xml_of_tests body_NoNamespace)
       = Some ''sip:6000@pbx''
   \<and> ParseDialogInfo xml_of_tests body_NoNamespace = StateBusy
   \<and> ExtensionFromDialogInfo xml_of_tests body_NoNamespace = ''''"
proof -
  have n: "Unmarshal_DialogInfo xml_of_tests body_NoNamespace = None"
    by (simp add: xml_of_tests_def bodies_differ)
  have s: "Unmarshal_dialogInfoNoNS xml_of_tests body_NoNamespace =
      Some \<lparr>Entity_NoNS = ''sip:6000@pbx'',
            Dialogs_NoNS = [\<lparr>ID_NoNS = ''x'', State_NoNS = ''confirmed'',
                             StateAttr_NoNS = ''''\<rparr>]\<rparr>"
    by (simp add: xml_of_tests_def bodies_differ)
  show ?thesis
    using ExtensionFromDialogInfo_namespace_only [OF n] n s
    by (simp add: dialogsNoNSToState_def dialogStateStr_confirmed)
qed

section \<open>The event dispatcher\<close>

lemma notifyExtension_eq:
  "notifyExtension X req =
     (if ExtensionFromDialogInfo X (Body req) \<noteq> '''' then ExtensionFromDialogInfo X (Body req)
      else case GetHeader req ''To'' of None \<Rightarrow> '''' | Some val \<Rightarrow> extensionFromTo val)"
  by (simp add: notifyExtension_def Let_def split: option.splits)

lemma notifyState_eq:
  "notifyState X req =
     (if ParseDialogInfo X (Body req) \<noteq> StateUnknown then ParseDialogInfo X (Body req)
      else ParsePresenceBody X (Body req))"
  by (simp add: notifyState_def Let_def)

lemma handleNOTIFY_hd:
  "hd (handleNOTIFY X cl req tx) = RespondCalled (NewResponseFromRequest req 200 ''OK'' '''')"
  by (simp add: handleNOTIFY_def Let_def split: option.splits)

lemma handleNOTIFY_calls:
  "onBLF_calls (handleNOTIFY X cl req tx) =
     (if Respond tx (NewResponseFromRequest req 200 ''OK'' '''') = None \<and> Body req \<noteq> ''''
         \<and> notifyExtension X req \<noteq> '''' \<and> onBLF cl
      then [(notifyExtension X req, notifyState X req)] else [])"
  by (auto simp: handleNOTIFY_def Let_def split: option.splits)

lemma handleNOTIFY_eq:
  "handleNOTIFY X cl req tx =
     (case Respond tx (NewResponseFromRequest req 200 ''OK'' '''') of
        Some err \<Rightarrow>
          [RespondCalled (NewResponseFromRequest req 200 ''OK'' ''''),
           Logged \<lparr>level = LevelError, msg = ''NOTIFY 200 respond failed'',
                   attrs = [(''component'', VString ''sip''), (''error'', VString err)]\<rparr>]
      | None \<Rightarrow>
          if Body req \<noteq> '''' \<and> notifyExtension X req \<noteq> '''' \<and> onBLF cl
          then [RespondCalled (NewResponseFromRequest req 200 ''OK'' ''''),
                OnBLFCalled (notifyExtension X req) (notifyState X req)]
          else [RespondCalled (NewResponseFromRequest req 200 ''OK'' '''')])"
  by (simp add: handleNOTIFY_def Let_def logEntry_def split: option.splits)

text \<open>
  C8. The handler calls \<open>Respond\<close> with the 200 reply first, whatever the body is. If
  that call fails, the handler logs the error \<open>NOTIFY 200 respond failed\<close> with the failure
  and returns: nothing is parsed and the registered handler is not called. If it succeeds
  and the body is empty, nothing more is done. Otherwise the registered handler is called,
  once, with the extension and the state, if and only if an extension was found, in the body
  or else in the \<open>To\<close> header; in every other case nothing more is done and nothing is
  logged.
\<close>

theorem handleNOTIFY_dispatch:
  "handleNOTIFY X cl req tx =
     (case Respond tx (NewResponseFromRequest req 200 ''OK'' '''') of
        Some err \<Rightarrow>
          [RespondCalled (NewResponseFromRequest req 200 ''OK'' ''''),
           Logged \<lparr>level = LevelError, msg = ''NOTIFY 200 respond failed'',
                   attrs = [(''component'', VString ''sip''), (''error'', VString err)]\<rparr>]
      | None \<Rightarrow>
          if Body req \<noteq> '''' \<and> notifyExtension X req \<noteq> '''' \<and> onBLF cl
          then [RespondCalled (NewResponseFromRequest req 200 ''OK'' ''''),
                OnBLFCalled (notifyExtension X req) (notifyState X req)]
          else [RespondCalled (NewResponseFromRequest req 200 ''OK'' '''')])
   \<and> hd (handleNOTIFY X cl req tx) = RespondCalled (NewResponseFromRequest req 200 ''OK'' '''')
   \<and> onBLF_calls (handleNOTIFY X cl req tx) =
       (if Respond tx (NewResponseFromRequest req 200 ''OK'' '''') = None \<and> Body req \<noteq> ''''
           \<and> notifyExtension X req \<noteq> '''' \<and> onBLF cl
        then [(notifyExtension X req, notifyState X req)] else [])
   \<and> notifyExtension X req =
       (if ExtensionFromDialogInfo X (Body req) \<noteq> '''' then ExtensionFromDialogInfo X (Body req)
        else case GetHeader req ''To'' of None \<Rightarrow> '''' | Some val \<Rightarrow> extensionFromTo val)
   \<and> notifyState X req =
       (if ParseDialogInfo X (Body req) \<noteq> StateUnknown then ParseDialogInfo X (Body req)
        else ParsePresenceBody X (Body req))"
  using handleNOTIFY_eq [of X cl req tx] handleNOTIFY_hd [of X cl req tx]
    handleNOTIFY_calls [of X cl req tx] notifyExtension_eq [of X req] notifyState_eq [of X req]
  by blast

lemma body_confirmed_not_empty: "body_confirmed \<noteq> ''''"
  by (simp add: body_confirmed_def)

lemma notifyExtension_confirmed: "notifyExtension xml_of_tests notify_confirmed = ''6000''"
  by (simp add: notifyExtension_def notify_confirmed_def ExtensionFromDialogInfo_def
      xml_of_tests_def extractIdentifier_def Let_def sliceFrom_def sliceTo_def)

text \<open>
  Against the reading that the handler is called whenever an extension is found: where
  \<open>Respond\<close> fails, the body is not empty and carries the extension 6000, a handler is
  registered, and the handler is not called; the failure is logged.
\<close>

theorem handleNOTIFY_respond_failure:
  "Body notify_confirmed \<noteq> ''''
   \<and> notifyExtension xml_of_tests notify_confirmed = ''6000''
   \<and> onBLF (sample_Client [''6000''])
   \<and> onBLF_calls (handleNOTIFY xml_of_tests (sample_Client [''6000'']) notify_confirmed
         tx_broken) = []
   \<and> handleNOTIFY xml_of_tests (sample_Client [''6000'']) notify_confirmed tx_broken =
       [RespondCalled (NewResponseFromRequest notify_confirmed 200 ''OK'' ''''),
        Logged \<lparr>level = LevelError, msg = ''NOTIFY 200 respond failed'',
                attrs = [(''component'', VString ''sip''),
                         (''error'', VString ''transport: connection closed'')]\<rparr>]"
proof -
  have b: "Body notify_confirmed \<noteq> ''''"
    by (simp add: notify_confirmed_def body_confirmed_not_empty)
  have r: "Respond tx_broken res = Some ''transport: connection closed''" for res
    by (simp add: tx_broken_def)
  show ?thesis
    using b notifyExtension_confirmed
    by (simp add: handleNOTIFY_calls handleNOTIFY_eq r sample_Client_def)
qed

lemma handleNOTIFY_test_ok:
  "onBLF_calls (handleNOTIFY xml_of_tests (sample_Client [''6000'']) notify_confirmed tx_ok)
     = [(''6000'', StateBusy)]"
proof -
  have b: "Body notify_confirmed \<noteq> ''''"
    by (simp add: notify_confirmed_def body_confirmed_not_empty)
  have s: "notifyState xml_of_tests notify_confirmed = StateBusy"
    by code_simp
  show ?thesis
    using b notifyExtension_confirmed s
    by (simp add: handleNOTIFY_calls tx_ok_def sample_Client_def)
qed

section \<open>Identity cache and publisher\<close>

lemma resolveUserID_hit:
  "userIDCache c upn = Some i \<Longrightarrow> resolveUserID G c w upn = (Inr i, c, w)"
  by (simp add: resolveUserID_def)

lemma resolveUserID_success_cached:
  "resolveUserID G c w upn = (Inr i, c', w') \<Longrightarrow> userIDCache c' upn = Some i"
  by (auto simp: resolveUserID_def Let_def split: option.splits sum.splits if_splits)

lemma resolveUserID_keeps:
  "userIDCache c k = Some v \<Longrightarrow>
   userIDCache (fst (snd (resolveUserID G c w upn))) k = Some v"
  by (auto simp: resolveUserID_def Let_def split: option.splits sum.splits)

lemma resolveUserID_gets:
  "gets (snd (snd (resolveUserID G c w upn))) =
     (if userIDCache c upn = None then gets w @ [upn] else gets w)"
  by (auto simp: resolveUserID_def Let_def graphLog_def split: option.splits sum.splits)

lemma resolveUserID_failure_cache:
  "resolveUserID G c w upn = (Inl e, c', w') \<Longrightarrow> c' = c"
  by (auto simp: resolveUserID_def Let_def split: option.splits sum.splits if_splits)

lemma resolveUserID_posts:
  "posts (snd (snd (resolveUserID G c w upn))) = posts w"
  by (auto simp: resolveUserID_def Let_def graphLog_def split: option.splits sum.splits)

lemma resolveUserID_lookup_error:
  "userIDCache c upn = None \<Longrightarrow> Users_Get G (gets w @ [upn]) = Inl err \<Longrightarrow>
   resolveUserID G c w upn = (Inl err, c, w\<lparr>gets := gets w @ [upn]\<rparr>)"
  by (simp add: resolveUserID_def Let_def)

lemma resolveUserID_nil_user:
  "userIDCache c upn = None \<Longrightarrow> Users_Get G (gets w @ [upn]) = Inr None \<Longrightarrow>
   resolveUserID G c w upn =
     (Inl (errors_New ''user not found''), c, w\<lparr>gets := gets w @ [upn]\<rparr>)"
  by (simp add: resolveUserID_def Let_def)

lemma resolveUserID_no_id:
  "userIDCache c upn = None \<Longrightarrow> Users_Get G (gets w @ [upn]) = Inr (Some user) \<Longrightarrow>
   GetId user = None \<or> GetId user = Some '''' \<Longrightarrow>
   resolveUserID G c w upn =
     (Inl (errors_New ''user has no id''), c, w\<lparr>gets := gets w @ [upn]\<rparr>)"
  by (auto simp: resolveUserID_def Let_def)

lemma resolveUserID_found:
  "userIDCache c upn = None \<Longrightarrow> Users_Get G (gets w @ [upn]) = Inr (Some user) \<Longrightarrow>
   GetId user = Some uid \<Longrightarrow> uid \<noteq> '''' \<Longrightarrow>
   resolveUserID G c w upn =
     (Inr uid, c\<lparr>userIDCache := (userIDCache c)(upn \<mapsto> uid)\<rparr>,
      w\<lparr>gets := gets w @ [upn],
        glog := glog w @ [\<lparr>level = LevelDebug, msg = ''resolved user to object ID'',
                            attrs = [(''component'', VString ''graph''),
                                     (''upn'', VString upn),
                                     (''objectId'', VString uid)]\<rparr>]\<rparr>)"
  by (simp add: resolveUserID_def Let_def graphLog_def logEntry_def)

text \<open>
  C6. A call of \<open>resolveUserID\<close> makes at most one directory lookup, and none when the
  identifier is in the cache. Once a call for an identifier has succeeded, the identifier is
  in the cache, and every later call for it returns the cached id with no lookup, whatever
  the directory would answer. A binding in the cache is never removed or changed. A lookup
  that fails caches nothing, so the next call for that identifier looks it up again: an
  error of the directory is returned as it is, a \<open>nil\<close> user is the error
  \<open>user not found\<close>, a user with no id or with the empty id is the error
  \<open>user has no id\<close>, and in each of these cases the cache is left as it was. A user with
  an id that is not empty is returned and written to the cache.
\<close>

theorem resolveUserID_memoizes:
  "gets (snd (snd (resolveUserID G c w upn))) =
     (if userIDCache c upn = None then gets w @ [upn] else gets w)
   \<and> (userIDCache c upn = Some i \<longrightarrow> resolveUserID G c w upn = (Inr i, c, w))
   \<and> (resolveUserID G c w upn = (Inr i, c', w') \<longrightarrow>
        userIDCache c' upn = Some i \<and> resolveUserID G' c' w' upn = (Inr i, c', w'))
   \<and> (userIDCache c k = Some v \<longrightarrow>
        userIDCache (fst (snd (resolveUserID G c w upn))) k = Some v)
   \<and> (resolveUserID G c w upn = (Inl e, c', w') \<longrightarrow> c' = c)
   \<and> (userIDCache c upn = None \<and> Users_Get G (gets w @ [upn]) = Inl err \<longrightarrow>
        resolveUserID G c w upn = (Inl err, c, w\<lparr>gets := gets w @ [upn]\<rparr>))
   \<and> (userIDCache c upn = None \<and> Users_Get G (gets w @ [upn]) = Inr None \<longrightarrow>
        resolveUserID G c w upn =
          (Inl (errors_New ''user not found''), c, w\<lparr>gets := gets w @ [upn]\<rparr>))
   \<and> (userIDCache c upn = None \<and> Users_Get G (gets w @ [upn]) = Inr (Some user)
        \<and> (GetId user = None \<or> GetId user = Some '''') \<longrightarrow>
        resolveUserID G c w upn =
          (Inl (errors_New ''user has no id''), c, w\<lparr>gets := gets w @ [upn]\<rparr>))
   \<and> (userIDCache c upn = None \<and> Users_Get G (gets w @ [upn]) = Inr (Some user)
        \<and> GetId user = Some uid \<and> uid \<noteq> '''' \<longrightarrow>
        resolveUserID G c w upn =
          (Inr uid, c\<lparr>userIDCache := (userIDCache c)(upn \<mapsto> uid)\<rparr>,
           w\<lparr>gets := gets w @ [upn],
             glog := glog w @ [\<lparr>level = LevelDebug, msg = ''resolved user to object ID'',
                                 attrs = [(''component'', VString ''graph''),
                                          (''upn'', VString upn),
                                          (''objectId'', VString uid)]\<rparr>]\<rparr>))"
  using resolveUserID_gets [of G c w upn] resolveUserID_hit [of c upn i G w]
    resolveUserID_success_cached [of G c w upn i c' w']
    resolveUserID_hit [of c' upn i G' w']
    resolveUserID_keeps [of c k v G w upn]
    resolveUserID_failure_cache [of G c w upn e c' w']
    resolveUserID_lookup_error [of c upn G w err]
    resolveUserID_nil_user [of c upn G w]
    resolveUserID_no_id [of c upn G w user]
    resolveUserID_found [of c upn G w user uid]
  by blast

lemma resolve_one_user:
  "resolveUserID (graph_one_user True) graph_client0 graph_start ''user1@contoso.com'' =
     (Inr ''8f3c-guid'', graph_client1,
      graphLog (graph_start\<lparr>gets := [''user1@contoso.com'']\<rparr>) LevelDebug
        ''resolved user to object ID''
        [(''upn'', VString ''user1@contoso.com''), (''objectId'', VString ''8f3c-guid'')])"
  by (simp add: resolveUserID_def graph_one_user_def graph_client0_def graph_client1_def
      graph_start_def Let_def)

lemma resolve_nobody:
  "resolveUserID graph_nobody graph_client0 graph_start ''user1@contoso.com'' =
     (Inl (errors_New ''Request_ResourceNotFound''), graph_client0,
      graph_start\<lparr>gets := [''user1@contoso.com'']\<rparr>)"
  by (simp add: resolveUserID_def graph_nobody_def graph_client0_def graph_start_def Let_def)

lemma cached1: "userIDCache graph_client1 ''user1@contoso.com'' = Some ''8f3c-guid''"
  by (simp add: graph_client1_def)

lemma cached0: "userIDCache graph_client0 upn = None"
  by (simp add: graph_client0_def)

lemma gets_start: "gets graph_start @ [upn] = [upn]"
  by (simp add: graph_start_def)

theorem resolveUserID_memoizes_witness:
  "gets (snd (snd (resolveTwice (graph_one_user True) graph_client0 graph_start
                     ''user1@contoso.com''))) = [''user1@contoso.com'']
   \<and> fst (resolveTwice (graph_one_user True) graph_client0 graph_start ''user1@contoso.com'')
       = Inr ''8f3c-guid''
   \<and> fst (snd (resolveTwice (graph_one_user True) graph_client0 graph_start
                  ''user1@contoso.com'')) = graph_client1
   \<and> resolveUserID graph_nobody graph_client1 graph_start ''user1@contoso.com''
       = (Inr ''8f3c-guid'', graph_client1, graph_start)
   \<and> userIDCache (fst (snd (resolveUserID graph_nobody graph_client1 graph_start
                              ''user2@contoso.com''))) ''user1@contoso.com''
       = Some ''8f3c-guid''
   \<and> resolveUserID graph_nobody graph_client0 graph_start ''user1@contoso.com''
       = (Inl (errors_New ''Request_ResourceNotFound''), graph_client0,
          graph_start\<lparr>gets := [''user1@contoso.com'']\<rparr>)
   \<and> resolveUserID (graph_directory (Inr None)) graph_client0 graph_start
         ''user1@contoso.com''
       = (Inl (errors_New ''user not found''), graph_client0,
          graph_start\<lparr>gets := [''user1@contoso.com'']\<rparr>)
   \<and> resolveUserID (graph_directory (Inr (Some \<lparr>GetId = None\<rparr>))) graph_client0 graph_start
         ''user1@contoso.com''
       = (Inl (errors_New ''user has no id''), graph_client0,
          graph_start\<lparr>gets := [''user1@contoso.com'']\<rparr>)
   \<and> resolveUserID (graph_directory (Inr (Some \<lparr>GetId = Some ''''\<rparr>))) graph_client0
         graph_start ''user1@contoso.com''
       = (Inl (errors_New ''user has no id''), graph_client0,
          graph_start\<lparr>gets := [''user1@contoso.com'']\<rparr>)
   \<and> userIDCache (fst (snd (resolveUserID (graph_directory (Inr (Some \<lparr>GetId = Some ''8f3c-guid''\<rparr>)))
          graph_client0 graph_start ''user1@contoso.com''))) ''user1@contoso.com''
       = Some ''8f3c-guid''"
proof -
  let ?u = "''user1@contoso.com''"
  let ?w1 = "graphLog (graph_start\<lparr>gets := [?u]\<rparr>) LevelDebug
        ''resolved user to object ID''
        [(''upn'', VString ?u), (''objectId'', VString ''8f3c-guid'')]"
  have a: "userIDCache graph_client1 ?u = Some ''8f3c-guid''
      \<and> resolveUserID (graph_one_user True) graph_client1 ?w1 ?u
           = (Inr ''8f3c-guid'', graph_client1, ?w1)"
    by (rule resolveUserID_memoizes [where G = "graph_one_user True"
          and G' = "graph_one_user True" and c = graph_client0 and w = graph_start,
          THEN conjunct2, THEN conjunct2, THEN conjunct1, THEN mp, OF resolve_one_user])
  have b: "resolveUserID graph_nobody graph_client1 graph_start ?u
       = (Inr ''8f3c-guid'', graph_client1, graph_start)"
    by (rule resolveUserID_memoizes [where G = graph_nobody,
          THEN conjunct2, THEN conjunct1, THEN mp, OF cached1])
  have k: "userIDCache (fst (snd (resolveUserID graph_nobody graph_client1 graph_start
                              ''user2@contoso.com''))) ?u
       = Some ''8f3c-guid''"
    by (rule resolveUserID_memoizes [where G = graph_nobody,
          THEN conjunct2, THEN conjunct2, THEN conjunct2, THEN conjunct1, THEN mp, OF cached1])
  have e: "graph_client0 = graph_client0"
    by (rule resolveUserID_memoizes [where G = graph_nobody,
          THEN conjunct2, THEN conjunct2, THEN conjunct2, THEN conjunct2, THEN conjunct1,
          THEN mp, OF resolve_nobody])
  have l1: "Users_Get graph_nobody (gets graph_start @ [?u])
              = Inl (errors_New ''Request_ResourceNotFound'')"
    by (simp add: graph_nobody_def)
  have m1: "resolveUserID graph_nobody graph_client0 graph_start ?u
       = (Inl (errors_New ''Request_ResourceNotFound''), graph_client0,
          graph_start\<lparr>gets := gets graph_start @ [?u]\<rparr>)"
    by (rule resolveUserID_memoizes [where G = graph_nobody,
          THEN conjunct2, THEN conjunct2, THEN conjunct2, THEN conjunct2, THEN conjunct2,
          THEN conjunct1, THEN mp, OF conjI [OF cached0 l1]])
  have l2: "Users_Get (graph_directory answer) (gets graph_start @ [?u]) = answer" for answer
    by (simp add: graph_directory_def)
  have m2: "resolveUserID (graph_directory (Inr None)) graph_client0 graph_start ?u
       = (Inl (errors_New ''user not found''), graph_client0,
          graph_start\<lparr>gets := gets graph_start @ [?u]\<rparr>)"
    by (rule resolveUserID_memoizes [where G = "graph_directory (Inr None)",
          THEN conjunct2, THEN conjunct2, THEN conjunct2, THEN conjunct2, THEN conjunct2,
          THEN conjunct2, THEN conjunct1, THEN mp, OF conjI [OF cached0 l2]])
  have n1: "GetId \<lparr>GetId = None\<rparr> = None \<or> GetId \<lparr>GetId = None\<rparr> = Some ''''"
    by simp
  have m3: "resolveUserID (graph_directory (Inr (Some \<lparr>GetId = None\<rparr>))) graph_client0
              graph_start ?u
       = (Inl (errors_New ''user has no id''), graph_client0,
          graph_start\<lparr>gets := gets graph_start @ [?u]\<rparr>)"
    by (rule resolveUserID_memoizes
          [where G = "graph_directory (Inr (Some \<lparr>GetId = None\<rparr>))",
          THEN conjunct2, THEN conjunct2, THEN conjunct2, THEN conjunct2, THEN conjunct2,
          THEN conjunct2, THEN conjunct2, THEN conjunct1, THEN mp,
          OF conjI [OF cached0 conjI [OF l2 n1]]])
  have n2: "GetId \<lparr>GetId = Some ''''\<rparr> = None \<or> GetId \<lparr>GetId = Some ''''\<rparr> = Some ''''"
    by simp
  have m4: "resolveUserID (graph_directory (Inr (Some \<lparr>GetId = Some ''''\<rparr>))) graph_client0
              graph_start ?u
       = (Inl (errors_New ''user has no id''), graph_client0,
          graph_start\<lparr>gets := gets graph_start @ [?u]\<rparr>)"
    by (rule resolveUserID_memoizes
          [where G = "graph_directory (Inr (Some \<lparr>GetId = Some ''''\<rparr>))",
          THEN conjunct2, THEN conjunct2, THEN conjunct2, THEN conjunct2, THEN conjunct2,
          THEN conjunct2, THEN conjunct2, THEN conjunct1, THEN mp,
          OF conjI [OF cached0 conjI [OF l2 n2]]])
  have n3: "GetId \<lparr>GetId = Some ''8f3c-guid''\<rparr> = Some ''8f3c-guid'' \<and> ''8f3c-guid'' \<noteq> ''''"
    by simp
  have m5: "resolveUserID (graph_directory (Inr (Some \<lparr>GetId = Some ''8f3c-guid''\<rparr>)))
              graph_client0 graph_start ?u
       = (Inr ''8f3c-guid'',
          graph_client0\<lparr>userIDCache := (userIDCache graph_client0)(?u \<mapsto> ''8f3c-guid'')\<rparr>,
          graph_start\<lparr>gets := gets graph_start @ [?u],
            glog := glog graph_start @
              [\<lparr>level = LevelDebug, msg = ''resolved user to object ID'',
                attrs = [(''component'', VString ''graph''), (''upn'', VString ?u),
                         (''objectId'', VString ''8f3c-guid'')]\<rparr>]\<rparr>)"
    by (rule resolveUserID_memoizes
          [where G = "graph_directory (Inr (Some \<lparr>GetId = Some ''8f3c-guid''\<rparr>))",
          THEN conjunct2, THEN conjunct2, THEN conjunct2, THEN conjunct2, THEN conjunct2,
          THEN conjunct2, THEN conjunct2, THEN conjunct2, THEN mp,
          OF conjI [OF cached0 conjI [OF l2 n3]]])
  have t: "resolveTwice (graph_one_user True) graph_client0 graph_start ?u
        = (Inr ''8f3c-guid'', graph_client1, ?w1)"
    unfolding resolveTwice_def resolve_one_user using a by simp
  have g: "gets ?w1 = [?u]"
    by (simp add: graphLog_def)
  have c5: "userIDCache (fst (snd (resolveUserID
              (graph_directory (Inr (Some \<lparr>GetId = Some ''8f3c-guid''\<rparr>)))
              graph_client0 graph_start ?u))) ?u = Some ''8f3c-guid''"
    unfolding m5 by simp
  show ?thesis
    unfolding t using b k g m1 m2 m3 m4 c5 unfolding gets_start by simp
qed

text \<open>
  Against the reading that a lookup happens at most once per identifier: where the lookup
  fails, two calls with the same identifier make two lookups.
\<close>

theorem resolveUserID_failure_not_cached:
  "gets (snd (snd (resolveTwice graph_nobody graph_client0 graph_start ''user1@contoso.com'')))
     = [''user1@contoso.com'', ''user1@contoso.com'']"
  by (simp add: resolveTwice_def resolveUserID_def graph_nobody_def graph_client0_def
      graph_start_def Let_def)

lemma SetPresence_resolve_failed:
  "resolveUserID G c w userID = (Inl err, c1, w1) \<Longrightarrow>
   fst (SetPresence G c w userID extension availability activity) = Some err
   \<and> posts (snd (snd (SetPresence G c w userID extension availability activity))) = posts w
   \<and> fst (snd (SetPresence G c w userID extension availability activity)) = c"
  using resolveUserID_posts [of G c w userID] resolveUserID_failure_cache [of G c w userID err c1 w1]
  by (simp add: SetPresence_def graphLog_def)

lemma SetPresence_posts_le:
  "length (posts (snd (snd (SetPresence G c w userID extension availability activity))))
     \<le> length (posts w) + 1"
  using resolveUserID_posts [of G c w userID]
  by (auto simp: SetPresence_def graphLog_def Let_def split: prod.splits sum.splits option.splits)

lemma SetPresence_post_result:
  "resolveUserID G c w userID = (Inr objectID, c1, w1) \<Longrightarrow>
   ParseISODuration G expiration = Inr dur \<Longrightarrow>
   fst (SetPresence G c w userID extension availability activity) =
     SetPresence_Post G (posts w @ [\<lparr>ByUserId = objectID, SessionId = clientID c1,
        Availability = availability, Activity = activity, ExpirationDuration = dur\<rparr>])
   \<and> posts (snd (snd (SetPresence G c w userID extension availability activity))) =
       posts w @ [\<lparr>ByUserId = objectID, SessionId = clientID c1,
          Availability = availability, Activity = activity, ExpirationDuration = dur\<rparr>]"
  using resolveUserID_posts [of G c w userID]
  by (auto simp: SetPresence_def graphLog_def Let_def split: option.splits)

text \<open>
  C7. If \<open>resolveUserID\<close> fails, \<open>SetPresence\<close> returns its error, posts nothing and leaves
  the cache as it was. Otherwise, once the duration is parsed, it posts exactly one presence
  update and returns what the post returned: an error of the post is the result of the call.
  Nothing is posted a second time: in every case at most one post is made.
\<close>

theorem SetPresence_errors:
  "length (posts (snd (snd (SetPresence G c w userID extension availability activity))))
     \<le> length (posts w) + 1
   \<and> (resolveUserID G c w userID = (Inl err, c1, w1) \<longrightarrow>
        fst (SetPresence G c w userID extension availability activity) = Some err
        \<and> posts (snd (snd (SetPresence G c w userID extension availability activity))) = posts w
        \<and> fst (snd (SetPresence G c w userID extension availability activity)) = c)
   \<and> (resolveUserID G c w userID = (Inr objectID, c1, w1)
        \<and> ParseISODuration G expiration = Inr dur \<longrightarrow>
        fst (SetPresence G c w userID extension availability activity) =
          SetPresence_Post G (posts w @ [\<lparr>ByUserId = objectID, SessionId = clientID c1,
             Availability = availability, Activity = activity, ExpirationDuration = dur\<rparr>])
        \<and> posts (snd (snd (SetPresence G c w userID extension availability activity))) =
            posts w @ [\<lparr>ByUserId = objectID, SessionId = clientID c1,
               Availability = availability, Activity = activity, ExpirationDuration = dur\<rparr>])"
  using SetPresence_posts_le [of G c w userID extension availability activity]
    SetPresence_resolve_failed [of G c w userID err c1 w1 extension availability activity]
    SetPresence_post_result [of G c w userID objectID c1 w1 dur extension availability activity]
  by blast

lemma errorChain_wrapped:
  "errorChain (Wrapping ''503 service unavailable'' (errors_New ''connection reset''))
     = ''503 service unavailable; connection reset''"
  by (simp add: errorChain_def)

lemma errorChain_single: "errorChain (errors_New m) = m"
  by (simp add: errorChain_def)

lemma SetPresence_failure_logged:
  "glog (snd (snd (SetPresence (graph_one_user False) graph_client1 graph_start
            ''user1@contoso.com'' ''1001'' ''Busy'' ''InACall''))) =
     [\<lparr>level = LevelError, msg = ''setPresence failed'',
       attrs = [(''component'', VString ''graph''), (''user'', VString ''user1@contoso.com''),
                (''extension'', VString ''1001''), (''availability'', VString ''Busy''),
                (''activity'', VString ''InACall''),
                (''error'', VString ''503 service unavailable''),
                (''error_chain'', VString ''503 service unavailable; connection reset'')]\<rparr>]"
  by (simp add: SetPresence_def resolveUserID_def graph_client1_def graph_one_user_def
      graph_start_def graphLog_def logEntry_def expiration_def errorChain_def Let_def)

lemma resolve_one_user_False:
  "resolveUserID (graph_one_user False) graph_client0 graph_start ''user1@contoso.com'' =
     (Inr ''8f3c-guid'',
      graph_client0\<lparr>userIDCache := (userIDCache graph_client0)(''user1@contoso.com'' \<mapsto> ''8f3c-guid'')\<rparr>,
      graphLog (graph_start\<lparr>gets := [''user1@contoso.com'']\<rparr>) LevelDebug
        ''resolved user to object ID''
        [(''upn'', VString ''user1@contoso.com''), (''objectId'', VString ''8f3c-guid'')])"
  by (simp add: resolveUserID_def graph_one_user_def graph_client0_def graph_start_def Let_def)

theorem SetPresence_errors_witness:
  "fst (SetPresence graph_nobody graph_client0 graph_start ''user1@contoso.com'' ''1001''
          ''Busy'' ''InACall'') = Some (errors_New ''Request_ResourceNotFound'')
   \<and> posts (snd (snd (SetPresence graph_nobody graph_client0 graph_start ''user1@contoso.com''
          ''1001'' ''Busy'' ''InACall''))) = []
   \<and> fst (SetPresence (graph_one_user False) graph_client0 graph_start ''user1@contoso.com''
          ''1001'' ''Busy'' ''InACall'') = Some (Wrapping ''503 service unavailable'' (errors_New ''connection reset''))
   \<and> posts (snd (snd (SetPresence (graph_one_user False) graph_client0 graph_start
          ''user1@contoso.com'' ''1001'' ''Busy'' ''InACall''))) =
       [\<lparr>ByUserId = ''8f3c-guid'', SessionId = ''app-id'', Availability = ''Busy'',
         Activity = ''InACall'', ExpirationDuration = 3600\<rparr>]"
proof -
  have d: "ParseISODuration (graph_one_user False) expiration = Inr 3600"
    by (simp add: graph_one_user_def expiration_def)
  have a: "fst (SetPresence graph_nobody graph_client0 graph_start ''user1@contoso.com'' ''1001''
          ''Busy'' ''InACall'') = Some (errors_New ''Request_ResourceNotFound'')
     \<and> posts (snd (snd (SetPresence graph_nobody graph_client0 graph_start ''user1@contoso.com''
          ''1001'' ''Busy'' ''InACall''))) = []"
    using SetPresence_errors [where G = graph_nobody and c = graph_client0 and w = graph_start
        and userID = "''user1@contoso.com''" and err = "errors_New ''Request_ResourceNotFound''"
        and ?c1.0 = graph_client0 and ?w1.0 = "graph_start\<lparr>gets := [''user1@contoso.com'']\<rparr>"
        and extension = "''1001''" and availability = "''Busy''" and activity = "''InACall''"]
      resolve_nobody
    by (simp add: graph_start_def)
  have b: "fst (SetPresence (graph_one_user False) graph_client0 graph_start ''user1@contoso.com''
          ''1001'' ''Busy'' ''InACall'') = Some (Wrapping ''503 service unavailable'' (errors_New ''connection reset''))
     \<and> posts (snd (snd (SetPresence (graph_one_user False) graph_client0 graph_start
          ''user1@contoso.com'' ''1001'' ''Busy'' ''InACall''))) =
       [\<lparr>ByUserId = ''8f3c-guid'', SessionId = ''app-id'', Availability = ''Busy'',
         Activity = ''InACall'', ExpirationDuration = 3600\<rparr>]"
    using SetPresence_errors [where G = "graph_one_user False" and c = graph_client0
        and w = graph_start and userID = "''user1@contoso.com''" and objectID = "''8f3c-guid''"
        and ?c1.0 = "graph_client0\<lparr>userIDCache :=
                  (userIDCache graph_client0)(''user1@contoso.com'' \<mapsto> ''8f3c-guid'')\<rparr>"
        and ?w1.0 = "graphLog (graph_start\<lparr>gets := [''user1@contoso.com'']\<rparr>) LevelDebug
          ''resolved user to object ID''
          [(''upn'', VString ''user1@contoso.com''), (''objectId'', VString ''8f3c-guid'')]"
        and dur = 3600
        and extension = "''1001''" and availability = "''Busy''" and activity = "''InACall''"]
      resolve_one_user_False d
    by (simp add: graph_start_def graph_client0_def graph_one_user_def)
  show ?thesis using a b by simp
qed

end
